theory Spec2Isabelle
  imports Main
begin

section \<open>The chat client: local storage, message list, rooms\<close>

text \<open>
  A shallow embedding of the browser client of the chat application:
  \<^item> \<^verbatim>\<open>frontend/app/src/components/ChatBody.tsx\<close>: the message list of the open room, the
    per-user map of liked messages, their copies in \<^verbatim>\<open>localStorage\<close>, and the handlers of
    the relayed events \<^verbatim>\<open>chat message\<close> and \<^verbatim>\<open>toggle like\<close>;
  \<^item> \<^verbatim>\<open>frontend/app/src/App.tsx\<close>: the joined-room list and the handlers that create,
    switch, rename and delete rooms and log the user out.

  Conventions of the model.
  \<^item> A JavaScript value that came out of \<^verbatim>\<open>JSON.parse\<close> or arrived on the socket is a
    \<open>json\<close>; an object is the list of its own properties in insertion order, and a
    property that is missing reads as \<open>None\<close> (\<^verbatim>\<open>undefined\<close>); inherited properties are
    found only where the source reads one with a key that is not fixed (the liked map,
    read with a message id). A string is a list of UTF-16 code units, each a \<open>char\<close>: the
    strings of the model are those whose code units lie below \<open>0x100\<close>.
  \<^item> A number of JavaScript is a double. The numbers of the model are the integers among
    them, and the sum of two of them is their integer sum rounded to the nearest double,
    which is the integer sum itself up to \<open>2 ^ 53\<close> in magnitude. (Fractions, and sums beyond
    the largest double, are outside the model.)
  \<^item> \<^verbatim>\<open>localStorage\<close> maps keys to texts, and has room for what is stored (\<^verbatim>\<open>setItem\<close>
    does not throw). \<^verbatim>\<open>JSON.parse\<close> and \<^verbatim>\<open>JSON.stringify\<close> belong to
    the platform: a stored text is represented by what \<^verbatim>\<open>JSON.parse\<close> makes of it, the
    value (\<open>Json v\<close>, the text \<^verbatim>\<open>JSON.stringify\<close> writes for \<open>v\<close>) or a failure
    (\<open>Garbage s\<close>, a text \<open>s\<close> that is not JSON; the empty text is one of them).
  \<^item> React state is passed explicitly: a handler takes the page's state and returns the
    new one; \<^verbatim>\<open>socket.emit\<close> appends to the list of emitted events; an effect
    (\<^verbatim>\<open>useEffect\<close>) is a function of its own, run after the state it depends on changed.
  \<^item> \<^verbatim>\<open>crypto.randomUUID()\<close> and \<^verbatim>\<open>new Date().toISOString()\<close> are inputs of the effect
    that calls them.
\<close>

subsection \<open>JavaScript values\<close>

datatype json =
    JNull
  | JBool bool
  | JNum int
  | JStr string
  | JArr "json list"
  | JObj "(string \<times> json) list"

type_synonym obj = "(string \<times> json) list"

text \<open>Reading a property of an object: \<^verbatim>\<open>m.k\<close>, \<open>None\<close> for \<^verbatim>\<open>undefined\<close>.\<close>

definition get :: "obj \<Rightarrow> string \<Rightarrow> json option" where
  "get m k = map_of m k"

text \<open>
  \<^verbatim>\<open>{ ...m, k: v }\<close>: a property the object has keeps its place and takes the new value,
  a new property goes last.
\<close>

fun put :: "string \<Rightarrow> json \<Rightarrow> obj \<Rightarrow> obj" where
  "put k v [] = [(k, v)]"
| "put k v (p # ps) = (if fst p = k then (k, v) # ps else p # put k v ps)"

text \<open>Truthiness of a value that may be \<^verbatim>\<open>undefined\<close> (\<^verbatim>\<open>!!x\<close>, \<^verbatim>\<open>if (x)\<close>, \<^verbatim>\<open>x && y\<close>).\<close>

fun truthy :: "json option \<Rightarrow> bool" where
  "truthy None = False"
| "truthy (Some JNull) = False"
| "truthy (Some (JBool b)) = b"
| "truthy (Some (JNum n)) = (n \<noteq> 0)"
| "truthy (Some (JStr s)) = (s \<noteq> [])"
| "truthy (Some (JArr xs)) = True"
| "truthy (Some (JObj ps)) = True"

text \<open>\<^verbatim>\<open>x ?? d\<close>: the default replaces \<^verbatim>\<open>undefined\<close> and \<^verbatim>\<open>null\<close> only.\<close>

fun nullish :: "json option \<Rightarrow> json \<Rightarrow> json" where
  "nullish None d = d"
| "nullish (Some JNull) d = d"
| "nullish (Some v) d = v"

text \<open>\<^verbatim>\<open>typeof x === "number" ? x : 0\<close>.\<close>

fun numberOr0 :: "json option \<Rightarrow> json" where
  "numberOr0 (Some (JNum n)) = JNum n"
| "numberOr0 _ = JNum 0"

text \<open>
  The nearest double of an integer below \<open>2 ^ 1024\<close> in magnitude, ties to the even
  mantissa: an integer up to \<open>2 ^ 53\<close> in magnitude is a double; a larger one has more
  than 53 binary digits, and the \<open>k\<close> digits beyond the first 53 are rounded off.
\<close>

fun bits :: "nat \<Rightarrow> nat" where
  "bits n = (if n = 0 then 0 else Suc (bits (n div 2)))"

definition dbl :: "int \<Rightarrow> int" where
  "dbl x =
     (if \<bar>x\<bar> \<le> 2 ^ 53 then x
      else
        let a = nat \<bar>x\<bar>; k = bits a - 53; q = a div 2 ^ k; r = a mod 2 ^ k;
            q' = (if 2 ^ k < 2 * r \<or> (2 * r = 2 ^ k \<and> odd q) then q + 1 else q)
        in sgn x * int (q' * 2 ^ k))"

text \<open>
  \<^verbatim>\<open>x + n\<close> for a number \<open>n\<close>. A number, a boolean and \<^verbatim>\<open>null\<close> on the left add as
  numbers; a string, an array and an object on the left make the sum a concatenation of
  texts, as JavaScript does (a number is written in decimal digits, its text below
  \<open>10 ^ 21\<close> in magnitude).
\<close>

definition digit :: "nat \<Rightarrow> char" where
  "digit n = ''0123456789'' ! (n mod 10)"

fun dec :: "nat \<Rightarrow> string" where
  "dec n = (if n < 10 then [digit n] else dec (n div 10) @ [digit n])"

definition num_str :: "int \<Rightarrow> string" where
  "num_str n = (if n < 0 then CHR ''-'' # dec (nat (- n)) else dec (nat n))"

fun join :: "string list \<Rightarrow> string" where
  "join [] = []"
| "join [s] = s"
| "join (s # t # ss) = s @ CHR '','' # join (t # ss)"

fun to_str :: "json \<Rightarrow> string" where
  "to_str JNull = ''null''"
| "to_str (JBool b) = (if b then ''true'' else ''false'')"
| "to_str (JNum n) = num_str n"
| "to_str (JStr s) = s"
| "to_str (JArr xs) = join (map (\<lambda>x. if x = JNull then [] else to_str x) xs)"
| "to_str (JObj ps) = ''[object Object]''"

fun js_plus :: "json \<Rightarrow> int \<Rightarrow> json" where
  "js_plus JNull n = JNum n"
| "js_plus (JBool b) n = JNum (dbl ((if b then 1 else 0) + n))"
| "js_plus (JNum a) n = JNum (dbl (a + n))"
| "js_plus v n = JStr (to_str v @ num_str n)"

text \<open>
  \<^verbatim>\<open>s.trim()\<close>: white space and line terminators are removed at both ends. Below \<open>0x100\<close>
  these are tab, line feed, vertical tab, form feed, carriage return, space and the
  no-break space \<open>0xA0\<close>. (The others, \<open>0x1680\<close>, \<open>0x2000\<close> to \<open>0x200A\<close>, \<open>0x2028\<close>,
  \<open>0x2029\<close>, \<open>0x202F\<close>, \<open>0x205F\<close>, \<open>0x3000\<close> and \<open>0xFEFF\<close>, are code units that the strings
  of the model do not have.)
\<close>

definition is_space :: "char \<Rightarrow> bool" where
  "is_space c =
     (c \<in> set [CHR 0x09, CHR 0x0A, CHR 0x0B, CHR 0x0C, CHR 0x0D, CHR '' '', CHR 0xA0])"

definition trim :: "string \<Rightarrow> string" where
  "trim s = rev (dropWhile is_space (rev (dropWhile is_space s)))"

subsection \<open>Local storage, events, page state\<close>

datatype item = Json json | Garbage string

text \<open>\<^verbatim>\<open>if (saved)\<close> on the result of \<^verbatim>\<open>getItem\<close>: \<^verbatim>\<open>null\<close> and the empty text are falsy.\<close>

fun present :: "item option \<Rightarrow> bool" where
  "present None = False"
| "present (Some (Json v)) = True"
| "present (Some (Garbage s)) = (s \<noteq> [])"

datatype event =
    JoinRoom string string
  | LeaveRoom string string
  | ToggleLike string int string

datatype error = TypeError | IllTyped

record page =
  username :: string
  room :: string
  isReady :: bool
  joinedRooms :: "string list"
  isManageModalOpen :: bool
  roomToManage :: "string option"
  renameValue :: string
  messages :: "obj list"
  likedMap :: obj
  localStorage :: "string \<rightharpoonup> item"
  emitted :: "event list"

text \<open>The keys: \<^verbatim>\<open>`chatMessages:${room}`\<close>, \<^verbatim>\<open>`likedMap:${room}:${username || "guest"}`\<close>,
  \<^verbatim>\<open>`userRooms:${user}`\<close>.\<close>

definition storageKey :: "string \<Rightarrow> string" where
  "storageKey r = ''chatMessages:'' @ r"

definition likedKey :: "string \<Rightarrow> string \<Rightarrow> string" where
  "likedKey r u = ''likedMap:'' @ r @ '':'' @ (if u = [] then ''guest'' else u)"

definition roomsKey :: "string \<Rightarrow> string" where
  "roomsKey u = ''userRooms:'' @ u"

definition setItem :: "string \<Rightarrow> item \<Rightarrow> page \<Rightarrow> page" where
  "setItem k v s = s\<lparr>localStorage := (localStorage s)(k \<mapsto> v)\<rparr>"

definition removeItem :: "string \<Rightarrow> page \<Rightarrow> page" where
  "removeItem k s = s\<lparr>localStorage := (localStorage s)(k := None)\<rparr>"

text \<open>\<^verbatim>\<open>JSON.stringify\<close> of a message list, as the stored item.\<close>

definition stringify_messages :: "obj list \<Rightarrow> item" where
  "stringify_messages ms = Json (JArr (map JObj ms))"

subsection \<open>ChatBody: loading the messages of the open room\<close>

text \<open>
  \<^verbatim>\<open>m.k\<close> for an element \<open>m\<close> of the parsed array and \<open>k\<close> one of the six field names:
  \<^verbatim>\<open>null\<close> has no properties (a \<^verbatim>\<open>TypeError\<close>, the caller's case), an object has its own,
  and a number, boolean, string or array has none of these six names.
\<close>

fun field :: "json \<Rightarrow> string \<Rightarrow> json option" where
  "field (JObj ps) k = get ps k"
| "field v k = None"

definition normalize :: "string \<Rightarrow> string \<Rightarrow> string \<Rightarrow> json \<Rightarrow> error + obj" where
  "normalize r uuid now m =
     (if m = JNull then Inl TypeError
      else Inr [(''id'', nullish (field m ''id'') (JStr uuid)),
                (''username'', nullish (field m ''username'') (JStr ''Unknown'')),
                (''message'', nullish (field m ''message'') (JStr [])),
                (''timestamp'', nullish (field m ''timestamp'') (JStr now)),
                (''likes'', numberOr0 (field m ''likes'')),
                (''room'', nullish (field m ''room'') (JStr r))])"

text \<open>\<^verbatim>\<open>parsed.map(...)\<close>: the \<open>i\<close>-th element takes the \<open>i\<close>-th identifier if it needs one;
  the first element that throws ends the whole map.\<close>

fun normalize_all :: "string \<Rightarrow> (nat \<Rightarrow> string) \<Rightarrow> string \<Rightarrow> nat \<Rightarrow> json list \<Rightarrow> error + obj list" where
  "normalize_all r uuid now i [] = Inr []"
| "normalize_all r uuid now i (m # ms) =
     (case normalize r (uuid i) now m of
        Inl e \<Rightarrow> Inl e
      | Inr x \<Rightarrow> (case normalize_all r uuid now (Suc i) ms of
                    Inl e \<Rightarrow> Inl e
                  | Inr xs \<Rightarrow> Inr (x # xs)))"

text \<open>The body of the \<^verbatim>\<open>try\<close>: \<^verbatim>\<open>JSON.parse\<close>, then \<^verbatim>\<open>parsed.map\<close>, which only an array has.\<close>

fun parse_messages :: "string \<Rightarrow> (nat \<Rightarrow> string) \<Rightarrow> string \<Rightarrow> item \<Rightarrow> error + obj list" where
  "parse_messages r uuid now (Json (JArr xs)) = normalize_all r uuid now 0 xs"
| "parse_messages r uuid now (Json v) = Inl TypeError"
| "parse_messages r uuid now (Garbage s) = Inl TypeError"

definition loadRoomMessages :: "(nat \<Rightarrow> string) \<Rightarrow> string \<Rightarrow> page \<Rightarrow> page" where
  "loadRoomMessages uuid now s =
     (let key = storageKey (room s); savedMessages = localStorage s key in
      if present savedMessages then
        (case savedMessages of
           None \<Rightarrow> s\<lparr>messages := []\<rparr>
         | Some it \<Rightarrow>
             (case parse_messages (room s) uuid now it of
                Inr normalized \<Rightarrow>
                  setItem key (stringify_messages normalized) (s\<lparr>messages := normalized\<rparr>)
              | Inl e \<Rightarrow> (removeItem key s)\<lparr>messages := []\<rparr>))
      else s\<lparr>messages := []\<rparr>)"

subsection \<open>ChatBody: relayed events and the like button\<close>

text \<open>\<^verbatim>\<open>handleChatMessage\<close>: a message tagged for another room is ignored; otherwise it is
  appended, with \<^verbatim>\<open>likes\<close> a number and \<^verbatim>\<open>room\<close> set, and the list is stored.\<close>

definition handleChatMessage :: "obj \<Rightarrow> page \<Rightarrow> page" where
  "handleChatMessage message s =
     (if truthy (get message ''room'') \<and> get message ''room'' \<noteq> Some (JStr (room s)) then s
      else
        let msgWithLikes =
              put ''room'' (nullish (get message ''room'') (JStr (room s)))
                (put ''likes'' (numberOr0 (get message ''likes'')) message);
            updated = messages s @ [msgWithLikes]
        in setItem (storageKey (room s)) (stringify_messages updated) (s\<lparr>messages := updated\<rparr>))"

text \<open>The payload of \<^verbatim>\<open>toggle like\<close>: \<^verbatim>\<open>{ id: string; delta: number; room?: string }\<close>.\<close>

record like =
  like_id :: string
  like_delta :: int
  like_room :: "string option"

text \<open>\<^verbatim>\<open>m.id === id ? { ...m, likes: (m.likes ?? 0) + delta } : m\<close>, the function both
  \<^verbatim>\<open>handleToggleLike\<close> and \<^verbatim>\<open>handleLikeClick\<close> map over the list.\<close>

definition bump :: "string \<Rightarrow> int \<Rightarrow> obj \<Rightarrow> obj" where
  "bump i d m =
     (if get m ''id'' = Some (JStr i)
      then put ''likes'' (js_plus (nullish (get m ''likes'') (JNum 0)) d) m
      else m)"

definition handleToggleLike :: "like \<Rightarrow> page \<Rightarrow> page" where
  "handleToggleLike data s =
     (if (case like_room data of None \<Rightarrow> False | Some r \<Rightarrow> r \<noteq> [] \<and> r \<noteq> room s) then s
      else
        let updated = map (bump (like_id data) (like_delta data)) (messages s)
        in setItem (storageKey (room s)) (stringify_messages updated) (s\<lparr>messages := updated\<rparr>))"

text \<open>\<^verbatim>\<open>handleLikeClick\<close>: the like of this user is flipped, the counter moves by the
  delta, both are stored, and the delta is emitted for the others. (The two texts are
  stored under different keys, so the order in which React runs the two state updaters
  makes no difference.)\<close>

text \<open>
  \<^verbatim>\<open>!!likedMap[id]\<close>, for the plain object that the liked map is: an own property decides
  by its value; a key that is not an own property finds the members of
  \<^verbatim>\<open>Object.prototype\<close>, which are all truthy.
\<close>

definition inherited :: "string list" where
  "inherited =
     [''constructor'', ''__defineGetter__'', ''__defineSetter__'', ''hasOwnProperty'',
      ''__lookupGetter__'', ''__lookupSetter__'', ''isPrototypeOf'', ''propertyIsEnumerable'',
      ''toString'', ''valueOf'', ''__proto__'', ''toLocaleString'']"

definition isLiked :: "obj \<Rightarrow> string \<Rightarrow> bool" where
  "isLiked m i = (case get m i of None \<Rightarrow> i \<in> set inherited | Some v \<Rightarrow> truthy (Some v))"

definition handleLikeClick :: "string \<Rightarrow> page \<Rightarrow> page" where
  "handleLikeClick i s =
     (let alreadyLiked = isLiked (likedMap s) i;
          next = put i (JBool (\<not> alreadyLiked)) (likedMap s);
          delta = (if alreadyLiked then - 1 else 1);
          updated = map (bump i delta) (messages s);
          s1 = setItem (storageKey (room s)) (stringify_messages updated) (s\<lparr>messages := updated\<rparr>);
          s2 = setItem (likedKey (room s) (username s)) (Json (JObj next)) s1;
          s3 = s2\<lparr>emitted := emitted s2 @ [ToggleLike i delta (room s)]\<rparr>
      in s3\<lparr>likedMap := next\<rparr>)"

subsection \<open>App: the joined-room list\<close>

text \<open>
  \<^verbatim>\<open>addRoomForUser\<close> reads the stored list: nothing stored (or the empty text) and a text
  that does not parse both give the empty array. What parses is taken for a
  \<^verbatim>\<open>string[]\<close> without a check. The model follows the source on every array of
  strings and stops elsewhere: with \<open>TypeError\<close> where \<^verbatim>\<open>arr.includes\<close> is not a function
  (\<^verbatim>\<open>null\<close>, a number, a boolean, an object), with \<open>IllTyped\<close> where the source goes on
  with a value that is not a \<^verbatim>\<open>string[]\<close> (a string, an array with another element).
\<close>

fun strings :: "json list \<Rightarrow> string list option" where
  "strings [] = Some []"
| "strings (JStr s # xs) = (case strings xs of None \<Rightarrow> None | Some ss \<Rightarrow> Some (s # ss))"
| "strings (x # xs) = None"

fun readRooms :: "item option \<Rightarrow> error + string list" where
  "readRooms None = Inr []"
| "readRooms (Some (Garbage s)) = Inr []"
| "readRooms (Some (Json (JArr xs))) = (case strings xs of None \<Rightarrow> Inl IllTyped | Some ss \<Rightarrow> Inr ss)"
| "readRooms (Some (Json (JStr s))) = Inl IllTyped"
| "readRooms (Some (Json v)) = Inl TypeError"

definition stringify_rooms :: "string list \<Rightarrow> item" where
  "stringify_rooms rs = Json (JArr (map JStr rs))"

definition addRoomForUser :: "string \<Rightarrow> string \<Rightarrow> page \<Rightarrow> error + page" where
  "addRoomForUser user roomName s =
     (let key = roomsKey user in
      case readRooms (localStorage s key) of
        Inl e \<Rightarrow> Inl e
      | Inr arr \<Rightarrow>
          if roomName \<notin> set arr then
            let updated = arr @ [roomName]
            in Inr ((setItem key (stringify_rooms updated) s)\<lparr>joinedRooms := updated\<rparr>)
          else Inr (s\<lparr>joinedRooms := arr\<rparr>))"

definition saveUserRoomsList :: "string \<Rightarrow> string list \<Rightarrow> page \<Rightarrow> page" where
  "saveUserRoomsList user rooms s = setItem (roomsKey user) (stringify_rooms rooms) s"

text \<open>\<^verbatim>\<open>switchToRoom\<close>: with a user name, the relay is told to leave the open room and to
  join the next one. (The address bar is rewritten too; it is not part of the state.)\<close>

definition switchToRoom :: "string \<Rightarrow> page \<Rightarrow> page" where
  "switchToRoom nextRoom s =
     (if trim (username s) = [] then s\<lparr>room := nextRoom\<rparr>
      else s\<lparr>emitted := emitted s @ [LeaveRoom (username s) (room s), JoinRoom (username s) nextRoom],
             room := nextRoom\<rparr>)"

subsection \<open>App: renaming and deleting a room, logging out\<close>

text \<open>Steps 2 and 3 of the rename: what is stored under the old key goes to the new key.\<close>

definition moveItem :: "string \<Rightarrow> string \<Rightarrow> page \<Rightarrow> page" where
  "moveItem oldKey newKey s =
     (case localStorage s oldKey of
        None \<Rightarrow> s
      | Some saved \<Rightarrow>
          if present (Some saved) then removeItem oldKey (setItem newKey saved s) else s)"

definition closeManageModal :: "page \<Rightarrow> page" where
  "closeManageModal s = s\<lparr>isManageModalOpen := False, roomToManage := None, renameValue := []\<rparr>"

definition handleRenameRoomConfirm :: "page \<Rightarrow> page" where
  "handleRenameRoomConfirm s =
     (case roomToManage s of
        None \<Rightarrow> s\<lparr>isManageModalOpen := False\<rparr>
      | Some oldRoom \<Rightarrow>
          if oldRoom = [] \<or> trim (username s) = [] then s\<lparr>isManageModalOpen := False\<rparr>
          else
            let nextName = trim (renameValue s) in
            if nextName = [] \<or> nextName = oldRoom then s\<lparr>isManageModalOpen := False\<rparr>
            else
              let updatedList = map (\<lambda>r. if r = oldRoom then nextName else r) (joinedRooms s);
                  s1 = saveUserRoomsList (username s) updatedList (s\<lparr>joinedRooms := updatedList\<rparr>);
                  s2 = moveItem (storageKey oldRoom) (storageKey nextName) s1;
                  s3 = moveItem (likedKey oldRoom (username s)) (likedKey nextName (username s)) s2;
                  s4 = (if room s = oldRoom then switchToRoom nextName s3 else s3)
              in closeManageModal s4)"

definition handleDeleteRoom :: "page \<Rightarrow> error + page" where
  "handleDeleteRoom s =
     (case roomToManage s of
        None \<Rightarrow> Inr (s\<lparr>isManageModalOpen := False\<rparr>)
      | Some target \<Rightarrow>
          if target = [] \<or> trim (username s) = [] then Inr (s\<lparr>isManageModalOpen := False\<rparr>)
          else
            let updatedList = filter (\<lambda>r. r \<noteq> target) (joinedRooms s);
                s1 = saveUserRoomsList (username s) updatedList (s\<lparr>joinedRooms := updatedList\<rparr>);
                s2 = removeItem (storageKey target) s1;
                s3 = removeItem (likedKey target (username s)) s2
            in if room s = target then
                 (case updatedList of
                    fallback # rest \<Rightarrow> Inr (closeManageModal (switchToRoom fallback s3))
                  | [] \<Rightarrow>
                      (case addRoomForUser (username s) ''general'' s3 of
                         Inl e \<Rightarrow> Inl e
                       | Inr s4 \<Rightarrow> Inr (closeManageModal (switchToRoom ''general'' s4))))
               else Inr (closeManageModal s3))"

text \<open>
  \<^verbatim>\<open>{ ...m, likes: 0 }\<close> for any parsed element \<open>m\<close>: the own properties of an object, the
  indexed elements of an array and the indexed characters of a string are copied;
  \<^verbatim>\<open>null\<close>, numbers and booleans have none.
\<close>

fun props :: "json \<Rightarrow> obj" where
  "props (JObj ps) = ps"
| "props (JArr xs) = zip (map dec [0 ..< length xs]) xs"
| "props (JStr cs) = zip (map dec [0 ..< length cs]) (map (\<lambda>c. JStr [c]) cs)"
| "props v = []"

definition resetLike :: "json \<Rightarrow> json" where
  "resetLike m = JObj (put ''likes'' (JNum 0) (props m))"

text \<open>The \<^verbatim>\<open>try\<close> of the logout: only a stored array is rewritten; a text that does not
  parse and a value without \<^verbatim>\<open>map\<close> are logged and left as they are.\<close>

fun resetLikes :: "string \<Rightarrow> page \<Rightarrow> page" where
  "resetLikes key s =
     (case localStorage s key of
        Some (Json (JArr parsed)) \<Rightarrow> setItem key (Json (JArr (map resetLike parsed))) s
      | _ \<Rightarrow> s)"

text \<open>\<^verbatim>\<open>handleLogout\<close>: in the chat, the user leaves the room, the stored likes are reset and
  the stored liked map is removed; then the welcome screen is set up.\<close>

definition handleLogout :: "page \<Rightarrow> page" where
  "handleLogout s =
     (let s3 =
        (if isReady s then
           let s1 = s\<lparr>emitted := emitted s @ [LeaveRoom (username s) (room s)]\<rparr>;
               s2 = resetLikes (storageKey (room s)) s1
           in removeItem (likedKey (room s) (username s)) s2
         else s)
      in s3\<lparr>isReady := False, username := [], room := ''general'', joinedRooms := []\<rparr>)"

subsection \<open>Sequences of operations\<close>


text \<open>A sequence of calls of \<^verbatim>\<open>addRoomForUser\<close> for one user; the first call that fails
  ends it.\<close>

fun addRooms :: "string \<Rightarrow> string list \<Rightarrow> page \<Rightarrow> error + page" where
  "addRooms user [] s = Inr s"
| "addRooms user (r # rs) s =
     (case addRoomForUser user r s of Inl e \<Rightarrow> Inl e | Inr s' \<Rightarrow> addRooms user rs s')"

text \<open>The states of a mounted \<^verbatim>\<open>ChatBody\<close>: the load effect has run, and then any of the
  two relayed events and the like button, in any order (the load runs again when the
  room changes).\<close>

inductive mounted :: "page \<Rightarrow> bool" where
  load: "mounted (loadRoomMessages uuid now s)"
| chat_message: "mounted s \<Longrightarrow> mounted (handleChatMessage message s)"
| toggle_like: "mounted s \<Longrightarrow> mounted (handleToggleLike data s)"
| like_click: "mounted s \<Longrightarrow> mounted (handleLikeClick i s)"

subsection \<open>Message lists\<close>

text \<open>Every likes counter of a list is a number; and every one is a number that is not
  negative.\<close>

definition likes_numeric :: "obj list \<Rightarrow> bool" where
  "likes_numeric ms = (\<forall>m \<in> set ms. \<exists>n. get m ''likes'' = Some (JNum n))"

definition likes_nonneg :: "obj list \<Rightarrow> bool" where
  "likes_nonneg ms = list_all (\<lambda>m. case get m ''likes'' of Some (JNum n) \<Rightarrow> 0 \<le> n | _ \<Rightarrow> False) ms"

text \<open>The six fields of a \<^verbatim>\<open>ChatMessage\<close>, in the order in which \<^verbatim>\<open>sendMessage\<close> and the load
  write them; and a field that is there: neither \<^verbatim>\<open>undefined\<close> nor \<^verbatim>\<open>null\<close>.\<close>

definition fieldNames :: "string list" where
  "fieldNames = [''id'', ''username'', ''message'', ''timestamp'', ''likes'', ''room'']"

definition has :: "obj \<Rightarrow> string \<Rightarrow> bool" where
  "has m k = (get m k \<noteq> None \<and> get m k \<noteq> Some JNull)"

subsection \<open>States to run the handlers on\<close>

text \<open>A user in the room \<^verbatim>\<open>general\<close> with nothing stored; a message sent to that room;
  identifiers and a time of day for the load.\<close>

definition bob :: page where
  "bob = \<lparr>username = ''bob'', room = ''general'', isReady = True, joinedRooms = [''general''],
          isManageModalOpen = False, roomToManage = None, renameValue = [], messages = [],
          likedMap = [], localStorage = Map.empty, emitted = []\<rparr>"

definition hello :: obj where
  "hello = [(''id'', JStr ''m1''), (''username'', JStr ''alice''), (''message'', JStr ''hello''),
            (''timestamp'', JStr ''2024-01-01T00:00:00.000Z''), (''likes'', JNum 0),
            (''room'', JStr ''general'')]"

text \<open>The same message with one more property, as a relay may forward it.\<close>

definition hello_color :: obj where
  "hello_color = hello @ [(''color'', JStr ''red'')]"


definition uuids :: "nat \<Rightarrow> string" where
  "uuids n = ''uuid-'' @ dec n"

definition noon :: string where
  "noon = ''2024-01-01T12:00:00.000Z''"

text \<open>The user has received the message and liked it.\<close>

definition liked_hello :: page where
  "liked_hello = handleLikeClick ''m1'' (handleChatMessage hello bob)"

text \<open>The user has opened the settings of the open room and typed a new name, with a
  no-break space before it and spaces around it.\<close>

definition renaming :: page where
  "renaming = bob\<lparr>isManageModalOpen := True, roomToManage := Some ''general'',
                  renameValue := CHR 0xA0 # '' team ''\<rparr>"

text \<open>The user has opened the settings of the open room \<^verbatim>\<open>general\<close>, the only room of the
  list; and of the open room \<^verbatim>\<open>work\<close>, one of two rooms, with a message and a like
  stored.\<close>

definition deleting :: page where
  "deleting = bob\<lparr>isManageModalOpen := True, roomToManage := Some ''general'', renameValue := ''general''\<rparr>"

definition deleting_work :: page where
  "deleting_work =
     bob\<lparr>room := ''work'', joinedRooms := [''general'', ''work''], isManageModalOpen := True,
         roomToManage := Some ''work'', renameValue := ''work'',
         localStorage := [storageKey ''work'' \<mapsto> stringify_messages [hello],
                          likedKey ''work'' ''bob'' \<mapsto> Json (JObj [(''m1'', JBool True)])]\<rparr>"

section \<open>Properties\<close>

subsection \<open>Objects and keys\<close>

lemma get_put_same: "get (put k v m) k = Some v"
  by (induction m) (auto simp: get_def)

lemma get_put_other: "k' \<noteq> k \<Longrightarrow> get (put k v m) k' = get m k'"
  by (induction m) (auto simp: get_def)



lemma storageKey_inj: "storageKey a = storageKey b \<longleftrightarrow> a = b"
  by (simp add: storageKey_def)

lemma likedKey_inj: "likedKey a u = likedKey b u \<longleftrightarrow> a = b"
  by (simp add: likedKey_def)

lemma storageKey_likedKey: "storageKey a \<noteq> likedKey b u" "likedKey b u \<noteq> storageKey a"
  by (simp_all add: storageKey_def likedKey_def)

lemma roomsKey_other:
  "roomsKey u \<noteq> storageKey a" "roomsKey u \<noteq> likedKey b v"
  "storageKey a \<noteq> roomsKey u" "likedKey b v \<noteq> roomsKey u"
  by (simp_all add: storageKey_def likedKey_def roomsKey_def)


lemma not_isLiked_m1: "\<not> isLiked [] ''m1''"
  by (simp add: isLiked_def inherited_def get_def)

subsection \<open>Numbers\<close>

declare bits.simps [simp del]

lemma bits_lower: "0 < n \<Longrightarrow> 2 ^ (bits n - 1) \<le> n"
proof (induction n rule: bits.induct)
  case (1 n)
  show ?case
  proof (cases "n div 2 = 0")
    case True
    with "1.prems" have "n = 1" by (auto simp: div_eq_0_iff)
    then show ?thesis by (simp add: bits.simps)
  next
    case False
    then have "0 < n div 2" by simp
    with "1.IH" "1.prems" have ih: "2 ^ (bits (n div 2) - 1) \<le> n div 2" by simp
    have b: "bits n = Suc (bits (n div 2))" using "1.prems" by (subst bits.simps) simp
    have "0 < bits (n div 2)" using False by (subst bits.simps) simp
    then have "2 ^ (bits n - 1) = 2 * 2 ^ (bits (n div 2) - 1)"
      by (cases "bits (n div 2)") (simp_all add: b)
    also have "\<dots> \<le> 2 * (n div 2)" using ih by simp
    also have "\<dots> \<le> n" by simp
    finally show ?thesis .
  qed
qed

lemma dbl_exact [simp]: "\<bar>x\<bar> \<le> 2 ^ 53 \<Longrightarrow> dbl x = x"
  by (simp add: dbl_def)

lemma dbl_sign: "0 \<le> dbl x \<longleftrightarrow> 0 \<le> x"
proof (cases "\<bar>x\<bar> \<le> 2 ^ 53")
  case True
  then show ?thesis by (simp add: dbl_def)
next
  case False
  define a where "a = nat \<bar>x\<bar>"
  define k where "k = bits a - 53"
  define q where "q = a div 2 ^ k"
  have "0 < a" using False by (simp add: a_def)
  then have "2 ^ (bits a - 1) \<le> a" by (rule bits_lower)
  moreover have "(2::nat) ^ k \<le> 2 ^ (bits a - 1)"
    by (rule power_increasing) (simp_all add: k_def)
  ultimately have "2 ^ k \<le> a" by (rule order_trans [rotated])
  then have "0 < q" by (simp add: q_def div_greater_zero_iff)
  then have pos: "0 < int ((if 2 ^ k < 2 * (a mod 2 ^ k) \<or> (2 * (a mod 2 ^ k) = 2 ^ k \<and> odd q) then q + 1 else q) * 2 ^ k)"
    by simp
  have "dbl x = sgn x * int ((if 2 ^ k < 2 * (a mod 2 ^ k) \<or> (2 * (a mod 2 ^ k) = 2 ^ k \<and> odd q) then q + 1 else q) * 2 ^ k)"
    using False by (simp add: dbl_def Let_def a_def k_def q_def)
  with pos show ?thesis
    by (cases "0 \<le> x") (auto simp: sgn_if zero_le_mult_iff mult_less_0_iff not_le)
qed




subsection \<open>A relayed like\<close>

lemma bump_hit:
  "get m ''id'' = Some (JStr i) \<Longrightarrow> get m ''likes'' = Some (JNum n) \<Longrightarrow>
   bump i d m = put ''likes'' (JNum (dbl (n + d))) m"
  by (simp add: bump_def)

lemma bump_put: "get m ''id'' = Some (JStr i) \<Longrightarrow> \<exists>v. bump i d m = put ''likes'' v m"
  by (auto simp: bump_def)

lemma bump_miss: "get m ''id'' \<noteq> Some (JStr i) \<Longrightarrow> bump i d m = m"
  by (simp add: bump_def)

lemma bump_other: "k \<noteq> ''likes'' \<Longrightarrow> get (bump i d m) k = get m k"
  by (simp add: bump_def get_put_other)

lemma map_bump_miss: "\<forall>m \<in> set ms. get m ''id'' \<noteq> Some (JStr i) \<Longrightarrow> map (bump i d) ms = ms"
  by (induction ms) (simp_all add: bump_miss)

lemma handleToggleLike_accepted:
  "tag = None \<or> tag = Some [] \<or> tag = Some (room s) \<Longrightarrow>
   handleToggleLike \<lparr>like_id = i, like_delta = d, like_room = tag\<rparr> s =
     setItem (storageKey (room s)) (stringify_messages (map (bump i d) (messages s)))
       (s\<lparr>messages := map (bump i d) (messages s)\<rparr>)"
  by (auto simp: handleToggleLike_def Let_def)

lemma handleToggleLike_dropped:
  "r \<noteq> [] \<Longrightarrow> r \<noteq> room s \<Longrightarrow>
   handleToggleLike \<lparr>like_id = i, like_delta = d, like_room = Some r\<rparr> s = s"
  by (simp add: handleToggleLike_def)

lemma bob_hello:
  "messages (handleChatMessage hello bob) = [hello]"
  "room (handleChatMessage hello bob) = ''general''"
  "username (handleChatMessage hello bob) = ''bob''"
  "likedMap (handleChatMessage hello bob) = []"
  "emitted (handleChatMessage hello bob) = []"
  by (simp_all add: handleChatMessage_def hello_def bob_def get_def setItem_def Let_def)

text \<open>
  C2 (as amended). A relayed like that is untagged, tagged with the empty name or tagged
  with the name of the open room replaces the likes counter of each message the id names
  by the sum of the counter and the delta as JavaScript computes it: for integers, the
  counter plus the delta when that is at most \<open>2 ^ 53\<close> in magnitude, and its nearest
  double beyond (stated here up to \<open>2 ^ 1023\<close>). The
  message keeps its place and every other field, every other message is unchanged, and
  the list is stored under the room's key. When the id names no message, the list is
  unchanged, and it is stored all the same: the room's entry is written again, or
  created. A like tagged with the name of another room changes nothing, whatever its id.
\<close>

theorem handleToggleLike_frame:
  "(\<forall>tag \<in> {None, Some [], Some (room s)}.
     let s' = handleToggleLike \<lparr>like_id = i, like_delta = d, like_room = tag\<rparr> s in
       length (messages s') = length (messages s) \<and>
       (\<forall>j < length (messages s).
          (get (messages s ! j) ''id'' = Some (JStr i) \<longrightarrow>
             (\<forall>n. get (messages s ! j) ''likes'' = Some (JNum n) \<longrightarrow>
                  (\<bar>n + d\<bar> \<le> 2 ^ 53 \<longrightarrow>
                     messages s' ! j = put ''likes'' (JNum (n + d)) (messages s ! j) \<and>
                     get (messages s' ! j) ''likes'' = Some (JNum (n + d))) \<and>
                  (\<bar>n + d\<bar> \<le> 2 ^ 1023 \<longrightarrow>
                     messages s' ! j = put ''likes'' (JNum (dbl (n + d))) (messages s ! j))) \<and>
             (\<exists>v. messages s' ! j = put ''likes'' v (messages s ! j)) \<and>
             (\<forall>k. k \<noteq> ''likes'' \<longrightarrow> get (messages s' ! j) k = get (messages s ! j) k)) \<and>
          (get (messages s ! j) ''id'' \<noteq> Some (JStr i) \<longrightarrow> messages s' ! j = messages s ! j)) \<and>
       ((\<forall>m \<in> set (messages s). get m ''id'' \<noteq> Some (JStr i)) \<longrightarrow>
          messages s' = messages s \<and>
          localStorage s' = (localStorage s)(storageKey (room s) \<mapsto> stringify_messages (messages s))) \<and>
       localStorage s' (storageKey (room s)) = Some (stringify_messages (messages s')))
   \<and> (\<forall>r. r \<noteq> [] \<and> r \<noteq> room s \<longrightarrow>
         handleToggleLike \<lparr>like_id = i, like_delta = d, like_room = Some r\<rparr> s = s)"
proof (intro conjI ballI allI impI)
  fix tag assume "tag \<in> {None, Some [], Some (room s)}"
  then have acc: "tag = None \<or> tag = Some [] \<or> tag = Some (room s)" by simp
  define s' where "s' = handleToggleLike \<lparr>like_id = i, like_delta = d, like_room = tag\<rparr> s"
  have ms': "messages s' = map (bump i d) (messages s)"
    and st': "localStorage s' = (localStorage s)(storageKey (room s) \<mapsto> stringify_messages (map (bump i d) (messages s)))"
    unfolding s'_def handleToggleLike_accepted [OF acc] by (simp_all add: setItem_def)
  have 1: "length (messages s') = length (messages s)" by (simp add: ms')
  have 2: "\<forall>j < length (messages s).
          (get (messages s ! j) ''id'' = Some (JStr i) \<longrightarrow>
             (\<forall>n. get (messages s ! j) ''likes'' = Some (JNum n) \<longrightarrow>
                  (\<bar>n + d\<bar> \<le> 2 ^ 53 \<longrightarrow>
                     messages s' ! j = put ''likes'' (JNum (n + d)) (messages s ! j) \<and>
                     get (messages s' ! j) ''likes'' = Some (JNum (n + d))) \<and>
                  (\<bar>n + d\<bar> \<le> 2 ^ 1023 \<longrightarrow>
                     messages s' ! j = put ''likes'' (JNum (dbl (n + d))) (messages s ! j))) \<and>
             (\<exists>v. messages s' ! j = put ''likes'' v (messages s ! j)) \<and>
             (\<forall>k. k \<noteq> ''likes'' \<longrightarrow> get (messages s' ! j) k = get (messages s ! j) k)) \<and>
          (get (messages s ! j) ''id'' \<noteq> Some (JStr i) \<longrightarrow> messages s' ! j = messages s ! j)"
    using bump_put [of _ i d]
    by (simp add: ms' bump_hit bump_miss bump_other get_put_same)
  have 3: "(\<forall>m \<in> set (messages s). get m ''id'' \<noteq> Some (JStr i)) \<longrightarrow>
          messages s' = messages s \<and>
          localStorage s' = (localStorage s)(storageKey (room s) \<mapsto> stringify_messages (messages s))"
    by (simp add: ms' st' map_bump_miss)
  have 4: "localStorage s' (storageKey (room s)) = Some (stringify_messages (messages s'))"
    by (simp add: ms' st')
  show "let s' = handleToggleLike \<lparr>like_id = i, like_delta = d, like_room = tag\<rparr> s in
       length (messages s') = length (messages s) \<and>
       (\<forall>j < length (messages s).
          (get (messages s ! j) ''id'' = Some (JStr i) \<longrightarrow>
             (\<forall>n. get (messages s ! j) ''likes'' = Some (JNum n) \<longrightarrow>
                  (\<bar>n + d\<bar> \<le> 2 ^ 53 \<longrightarrow>
                     messages s' ! j = put ''likes'' (JNum (n + d)) (messages s ! j) \<and>
                     get (messages s' ! j) ''likes'' = Some (JNum (n + d))) \<and>
                  (\<bar>n + d\<bar> \<le> 2 ^ 1023 \<longrightarrow>
                     messages s' ! j = put ''likes'' (JNum (dbl (n + d))) (messages s ! j))) \<and>
             (\<exists>v. messages s' ! j = put ''likes'' v (messages s ! j)) \<and>
             (\<forall>k. k \<noteq> ''likes'' \<longrightarrow> get (messages s' ! j) k = get (messages s ! j) k)) \<and>
          (get (messages s ! j) ''id'' \<noteq> Some (JStr i) \<longrightarrow> messages s' ! j = messages s ! j)) \<and>
       ((\<forall>m \<in> set (messages s). get m ''id'' \<noteq> Some (JStr i)) \<longrightarrow>
          messages s' = messages s \<and>
          localStorage s' = (localStorage s)(storageKey (room s) \<mapsto> stringify_messages (messages s))) \<and>
       localStorage s' (storageKey (room s)) = Some (stringify_messages (messages s'))"
    unfolding Let_def s'_def [symmetric] using 1 2 3 4 by blast
next
  fix r assume "r \<noteq> [] \<and> r \<noteq> room s"
  then show "handleToggleLike \<lparr>like_id = i, like_delta = d, like_room = Some r\<rparr> s = s"
    by (simp add: handleToggleLike_dropped)
qed

theorem handleToggleLike_frame_witness:
  "messages (handleToggleLike \<lparr>like_id = ''m1'', like_delta = 1, like_room = Some ''general''\<rparr>
      (handleChatMessage hello bob)) ! 0 = put ''likes'' (JNum 1) hello
   \<and> get (messages (handleToggleLike \<lparr>like_id = ''m1'', like_delta = 1, like_room = Some ''general''\<rparr>
      (handleChatMessage hello bob)) ! 0) ''username'' = Some (JStr ''alice'')
   \<and> messages (handleToggleLike \<lparr>like_id = ''m2'', like_delta = 1, like_room = Some ''general''\<rparr>
      (handleChatMessage hello bob)) = [hello]
   \<and> handleToggleLike \<lparr>like_id = ''m1'', like_delta = 1, like_room = Some ''work''\<rparr>
      (handleChatMessage hello bob) = handleChatMessage hello bob"
  using handleToggleLike_frame [of "handleChatMessage hello bob" "''m1''" 1]
        handleToggleLike_frame [of "handleChatMessage hello bob" "''m2''" 1]
  by (simp add: bob_hello Let_def) (simp add: hello_def get_def)

text \<open>
  C2 as stated fails for a like tagged with another room: the id names a stored message,
  and its counter stays what it was.
\<close>

theorem handleToggleLike_other_room_counterexample:
  "get (messages (handleChatMessage hello bob) ! 0) ''id'' = Some (JStr ''m1'')
   \<and> get (messages (handleChatMessage hello bob) ! 0) ''likes'' = Some (JNum 0)
   \<and> get (messages (handleToggleLike \<lparr>like_id = ''m1'', like_delta = 1, like_room = Some ''work''\<rparr>
        (handleChatMessage hello bob)) ! 0) ''likes'' = Some (JNum 0)"
  by (simp add: handleToggleLike_dropped bob_hello) (simp add: hello_def get_def)

subsection \<open>The likes counters\<close>

lemma likes_nonneg_Nil: "likes_nonneg []"
  by (simp add: likes_nonneg_def)

lemma likes_nonneg_append:
  "likes_nonneg (ms @ [m]) \<longleftrightarrow>
     likes_nonneg ms \<and> (case get m ''likes'' of Some (JNum n) \<Rightarrow> 0 \<le> n | _ \<Rightarrow> False)"
  by (simp add: likes_nonneg_def)

lemma likes_nonneg_iff:
  "likes_nonneg ms \<longleftrightarrow> (\<forall>m \<in> set ms. \<exists>n. get m ''likes'' = Some (JNum n) \<and> 0 \<le> n)"
proof -
  have "(case get m ''likes'' of Some (JNum n) \<Rightarrow> 0 \<le> n | _ \<Rightarrow> False) \<longleftrightarrow>
        (\<exists>n. get m ''likes'' = Some (JNum n) \<and> 0 \<le> n)" for m
  proof (cases "get m ''likes''")
    case None
    then show ?thesis by simp
  next
    case (Some v)
    then show ?thesis by (cases v) simp_all
  qed
  then show ?thesis by (simp add: likes_nonneg_def list_all_iff)
qed

lemma likes_nonneg_map_bump:
  assumes "likes_nonneg ms"
  shows "likes_nonneg (map (bump i d) ms) \<longleftrightarrow>
           (\<forall>m \<in> set ms. get m ''id'' = Some (JStr i) \<longrightarrow>
              (\<exists>n. get m ''likes'' = Some (JNum n) \<and> 0 \<le> n + d))"
  using assms
proof (induction ms)
  case Nil
  then show ?case by (simp add: likes_nonneg_def)
next
  case (Cons m ms)
  from Cons.prems obtain n where n: "get m ''likes'' = Some (JNum n)" "0 \<le> n" and ms: "likes_nonneg ms"
    by (auto simp: likes_nonneg_iff)
  have head: "(case get (bump i d m) ''likes'' of Some (JNum k) \<Rightarrow> 0 \<le> k | _ \<Rightarrow> False) \<longleftrightarrow>
      (get m ''id'' = Some (JStr i) \<longrightarrow> 0 \<le> n + d)"
    using n by (simp add: bump_def get_put_same dbl_sign)
  show ?case
    using Cons.IH [OF ms] head n by (simp add: likes_nonneg_def)
qed

lemma handleChatMessage_likes:
  "(\<forall>n. get message ''likes'' = Some (JNum n) \<longrightarrow> 0 \<le> n) \<Longrightarrow>
   (case get (put ''room'' r (put ''likes'' (numberOr0 (get message ''likes'')) message)) ''likes'' of
      Some (JNum n) \<Rightarrow> 0 \<le> n | _ \<Rightarrow> False)"
  by (cases "(get message ''likes'')" rule: numberOr0.cases)
     (simp_all add: get_put_other get_put_same)

text \<open>
  C1 (as amended). No operation puts a floor under a likes counter. From a list whose
  counters are numbers that are not negative: an appended incoming message keeps them so
  when its own \<^verbatim>\<open>likes\<close> is not a negative number; a relayed like keeps them so exactly when
  it is dropped (tagged for another room) or every message it names has
  \<open>likes + delta \<ge> 0\<close>; the like button keeps them so exactly when every message it names
  has \<open>likes + 1 \<ge> 0\<close> (a like is set) or \<open>likes - 1 \<ge> 0\<close> (a like is taken back).
\<close>

theorem likes_nonneg_preserved:
  assumes "likes_nonneg (messages s)"
  shows "((\<forall>n. get message ''likes'' = Some (JNum n) \<longrightarrow> 0 \<le> n) \<longrightarrow>
            likes_nonneg (messages (handleChatMessage message s)))
       \<and> (likes_nonneg (messages (handleToggleLike data s)) \<longleftrightarrow>
            (\<exists>r. like_room data = Some r \<and> r \<noteq> [] \<and> r \<noteq> room s) \<or>
            (\<forall>m \<in> set (messages s). get m ''id'' = Some (JStr (like_id data)) \<longrightarrow>
               (\<exists>n. get m ''likes'' = Some (JNum n) \<and> 0 \<le> n + like_delta data)))
       \<and> (likes_nonneg (messages (handleLikeClick i s)) \<longleftrightarrow>
            (\<forall>m \<in> set (messages s). get m ''id'' = Some (JStr i) \<longrightarrow>
               (\<exists>n. get m ''likes'' = Some (JNum n) \<and>
                    0 \<le> n + (if isLiked (likedMap s) i then - 1 else 1))))"
proof (intro conjI)
  show "(\<forall>n. get message ''likes'' = Some (JNum n) \<longrightarrow> 0 \<le> n) \<longrightarrow>
            likes_nonneg (messages (handleChatMessage message s))"
    using assms
    by (auto simp: handleChatMessage_def Let_def setItem_def likes_nonneg_append
        intro!: handleChatMessage_likes)
next
  show "likes_nonneg (messages (handleToggleLike data s)) \<longleftrightarrow>
            (\<exists>r. like_room data = Some r \<and> r \<noteq> [] \<and> r \<noteq> room s) \<or>
            (\<forall>m \<in> set (messages s). get m ''id'' = Some (JStr (like_id data)) \<longrightarrow>
               (\<exists>n. get m ''likes'' = Some (JNum n) \<and> 0 \<le> n + like_delta data))"
  proof (cases "\<exists>r. like_room data = Some r \<and> r \<noteq> [] \<and> r \<noteq> room s")
    case True
    then have "handleToggleLike data s = s"
      by (auto simp: handleToggleLike_def)
    with True assms show ?thesis by simp
  next
    case False
    then have "messages (handleToggleLike data s) = map (bump (like_id data) (like_delta data)) (messages s)"
      by (auto simp: handleToggleLike_def Let_def setItem_def split: option.splits)
    with False likes_nonneg_map_bump [OF assms] show ?thesis by auto
  qed
next
  have "messages (handleLikeClick i s) =
      map (bump i (if isLiked (likedMap s) i then - 1 else 1)) (messages s)"
    by (simp add: handleLikeClick_def Let_def setItem_def)
  with likes_nonneg_map_bump [OF assms]
  show "likes_nonneg (messages (handleLikeClick i s)) \<longleftrightarrow>
            (\<forall>m \<in> set (messages s). get m ''id'' = Some (JStr i) \<longrightarrow>
               (\<exists>n. get m ''likes'' = Some (JNum n) \<and>
                    0 \<le> n + (if isLiked (likedMap s) i then - 1 else 1)))"
    by simp
qed

theorem likes_nonneg_preserved_witness:
  "likes_nonneg (messages (handleChatMessage hello bob))
   \<and> likes_nonneg (messages (handleChatMessage hello (handleChatMessage hello bob)))
   \<and> likes_nonneg (messages (handleToggleLike \<lparr>like_id = ''m1'', like_delta = 1, like_room = None\<rparr>
        (handleChatMessage hello bob)))
   \<and> likes_nonneg (messages (handleLikeClick ''m1'' (handleChatMessage hello bob)))"
proof -
  have h: "likes_nonneg (messages (handleChatMessage hello bob))"
    unfolding bob_hello by (simp add: likes_nonneg_def hello_def get_def)
  show ?thesis
    using h likes_nonneg_preserved [OF h, of hello "\<lparr>like_id = ''m1'', like_delta = 1, like_room = None\<rparr>" "''m1''"]
    by (simp add: bob_hello not_isLiked_m1) (simp add: hello_def get_def)
qed

text \<open>
  C1 as stated fails: the room is loaded, a message with the counter \<open>0\<close> comes in, and a
  relayed delta of \<open>-1\<close> for it stores \<open>-1\<close>.
\<close>

theorem likes_nonneg_counterexample:
  "mounted (handleToggleLike \<lparr>like_id = ''m1'', like_delta = - 1, like_room = Some ''general''\<rparr>
      (handleChatMessage hello (loadRoomMessages uuids noon bob)))
   \<and> likes_nonneg (messages (handleChatMessage hello (loadRoomMessages uuids noon bob)))
   \<and> messages (handleToggleLike \<lparr>like_id = ''m1'', like_delta = - 1, like_room = Some ''general''\<rparr>
        (handleChatMessage hello (loadRoomMessages uuids noon bob)))
     = [[(''id'', JStr ''m1''), (''username'', JStr ''alice''), (''message'', JStr ''hello''),
         (''timestamp'', JStr ''2024-01-01T00:00:00.000Z''), (''likes'', JNum (- 1)),
         (''room'', JStr ''general'')]]
   \<and> \<not> likes_nonneg (messages (handleToggleLike \<lparr>like_id = ''m1'', like_delta = - 1, like_room = Some ''general''\<rparr>
        (handleChatMessage hello (loadRoomMessages uuids noon bob))))"
proof -
  have l: "loadRoomMessages uuids noon bob = bob"
    by (simp add: loadRoomMessages_def bob_def Let_def)
  have "mounted (handleToggleLike \<lparr>like_id = ''m1'', like_delta = - 1, like_room = Some ''general''\<rparr>
      (handleChatMessage hello (loadRoomMessages uuids noon bob)))"
    by (intro mounted.intros)
  moreover have "likes_nonneg (messages (handleChatMessage hello bob))"
    unfolding bob_hello by (simp add: likes_nonneg_def hello_def get_def)
  moreover have "messages (handleToggleLike \<lparr>like_id = ''m1'', like_delta = - 1, like_room = Some ''general''\<rparr>
        (handleChatMessage hello bob))
     = [[(''id'', JStr ''m1''), (''username'', JStr ''alice''), (''message'', JStr ''hello''),
         (''timestamp'', JStr ''2024-01-01T00:00:00.000Z''), (''likes'', JNum (- 1)),
         (''room'', JStr ''general'')]]"
    by (simp add: handleToggleLike_def bob_hello Let_def setItem_def)
       (simp add: hello_def get_def bump_def)
  ultimately show ?thesis
    unfolding l by (simp add: likes_nonneg_def get_def)
qed

subsection \<open>The like button\<close>

lemma handleLikeClick_fields:
  "room (handleLikeClick i s) = room s"
  "username (handleLikeClick i s) = username s"
  "messages (handleLikeClick i s) = map (bump i (if isLiked (likedMap s) i then - 1 else 1)) (messages s)"
  "likedMap (handleLikeClick i s) = put i (JBool (\<not> isLiked (likedMap s) i)) (likedMap s)"
  "emitted (handleLikeClick i s) =
     emitted s @ [ToggleLike i (if isLiked (likedMap s) i then - 1 else 1) (room s)]"
  "localStorage (handleLikeClick i s) (likedKey (room s) (username s)) =
     Some (Json (JObj (likedMap (handleLikeClick i s))))"
  by (simp_all add: handleLikeClick_def Let_def setItem_def)



lemma bump_up:
  "get m ''id'' = Some (JStr i) \<Longrightarrow> get m ''likes'' = Some (JNum n) \<Longrightarrow> \<bar>n\<bar> < 2 ^ 53 \<Longrightarrow>
   get (bump i 1 m) ''likes'' = Some (JNum (n + 1))"
  by (simp add: bump_def get_put_same)






subsection \<open>The likes counters are numbers\<close>

text \<open>In every state of a mounted \<^verbatim>\<open>ChatBody\<close> the likes counters are numbers: the load and
  the incoming message make them so, and a delta added to a number is a number.\<close>

lemma numberOr0_numeric: "\<exists>n. numberOr0 x = JNum n"
  by (cases x rule: numberOr0.cases) simp_all

lemma normalize_numeric:
  "normalize r u now m = Inr x \<Longrightarrow> \<exists>n. get x ''likes'' = Some (JNum n)"
  using numberOr0_numeric [of "field m ''likes''"]
  by (auto simp: normalize_def get_def split: if_splits)

lemma normalize_all_numeric:
  "normalize_all r uuid now i xs = Inr ms \<Longrightarrow> likes_numeric ms"
proof (induction xs arbitrary: i ms)
  case Nil
  then show ?case by (simp add: likes_numeric_def)
next
  case (Cons x xs)
  then show ?case
    by (auto simp: likes_numeric_def split: sum.splits dest: normalize_numeric)
qed

lemma loadRoomMessages_numeric: "likes_numeric (messages (loadRoomMessages uuid now s))"
proof -
  have "likes_numeric ms" if "parse_messages r uuid now it = Inr ms" for r it ms
    using that by (cases "(r, uuid, now, it)" rule: parse_messages.cases)
      (simp_all add: normalize_all_numeric)
  then show ?thesis
    by (auto simp: loadRoomMessages_def Let_def setItem_def likes_numeric_def
        split: option.splits sum.splits)
qed

lemma bump_numeric:
  "\<exists>n. get m ''likes'' = Some (JNum n) \<Longrightarrow> \<exists>n. get (bump i d m) ''likes'' = Some (JNum n)"
  by (auto simp: bump_def get_put_same)

lemma mounted_likes_numeric: "mounted s \<Longrightarrow> likes_numeric (messages s)"
proof (induction rule: mounted.induct)
  case (load uuid now s)
  show ?case by (rule loadRoomMessages_numeric)
next
  case (chat_message s message)
  have "\<exists>n. get (put ''room'' r (put ''likes'' (numberOr0 (get message ''likes'')) message)) ''likes''
      = Some (JNum n)" for r
    using numberOr0_numeric [of "get message ''likes''"]
    by (auto simp: get_put_other get_put_same)
  with chat_message show ?case
    by (auto simp: handleChatMessage_def Let_def setItem_def likes_numeric_def)
next
  case (toggle_like s data)
  then show ?case
    by (auto simp: handleToggleLike_def Let_def setItem_def likes_numeric_def
        split: option.splits intro: bump_numeric)
next
  case (like_click s i)
  then show ?case
    by (auto simp: handleLikeClick_fields likes_numeric_def intro: bump_numeric)
qed

subsection \<open>Loading the messages of a room\<close>

lemma loadRoomMessages_absent:
  "\<not> present (localStorage s (storageKey (room s))) \<Longrightarrow>
   loadRoomMessages uuid now s = s\<lparr>messages := []\<rparr>"
  by (simp add: loadRoomMessages_def Let_def)

lemma loadRoomMessages_garbage:
  "localStorage s (storageKey (room s)) = Some (Garbage t) \<Longrightarrow> t \<noteq> [] \<Longrightarrow>
   loadRoomMessages uuid now s = (removeItem (storageKey (room s)) s)\<lparr>messages := []\<rparr>"
  by (simp add: loadRoomMessages_def Let_def)

lemma loadRoomMessages_array:
  "localStorage s (storageKey (room s)) = Some (Json (JArr xs)) \<Longrightarrow>
   normalize_all (room s) uuid now 0 xs = Inr ms \<Longrightarrow>
   loadRoomMessages uuid now s =
     setItem (storageKey (room s)) (stringify_messages ms) (s\<lparr>messages := ms\<rparr>)"
  by (simp add: loadRoomMessages_def Let_def)

text \<open>
  C8 (as amended). A stored text that is not empty and does not parse is removed, and the
  room starts with the empty list; with no stored text, and with the empty text stored,
  the room starts with the empty list and the storage is left as it is.
\<close>

theorem loadRoomMessages_corrupt:
  "(\<forall>t. localStorage s (storageKey (room s)) = Some (Garbage t) \<and> t \<noteq> [] \<longrightarrow>
        messages (loadRoomMessages uuid now s) = [] \<and>
        localStorage (loadRoomMessages uuid now s) = (localStorage s)(storageKey (room s) := None))
   \<and> (localStorage s (storageKey (room s)) = None \<or>
       localStorage s (storageKey (room s)) = Some (Garbage []) \<longrightarrow>
        messages (loadRoomMessages uuid now s) = [] \<and>
        localStorage (loadRoomMessages uuid now s) = localStorage s)"
proof (intro conjI allI impI)
  fix t assume "localStorage s (storageKey (room s)) = Some (Garbage t) \<and> t \<noteq> []"
  then have *: "loadRoomMessages uuid now s = (removeItem (storageKey (room s)) s)\<lparr>messages := []\<rparr>"
    by (simp add: loadRoomMessages_garbage)
  show "messages (loadRoomMessages uuid now s) = []"
    by (simp add: *)
  show "localStorage (loadRoomMessages uuid now s) = (localStorage s)(storageKey (room s) := None)"
    by (simp add: * removeItem_def)
next
  assume "localStorage s (storageKey (room s)) = None \<or>
       localStorage s (storageKey (room s)) = Some (Garbage [])"
  then have "\<not> present (localStorage s (storageKey (room s)))" by auto
  then have *: "loadRoomMessages uuid now s = s\<lparr>messages := []\<rparr>"
    by (rule loadRoomMessages_absent)
  show "messages (loadRoomMessages uuid now s) = []" by (simp add: *)
  show "localStorage (loadRoomMessages uuid now s) = localStorage s" by (simp add: *)
qed

theorem loadRoomMessages_corrupt_witness:
  "messages (loadRoomMessages uuids noon
      (bob\<lparr>localStorage := [storageKey ''general'' \<mapsto> Garbage ''[{'']\<rparr>)) = []
   \<and> localStorage (loadRoomMessages uuids noon
      (bob\<lparr>localStorage := [storageKey ''general'' \<mapsto> Garbage ''[{'']\<rparr>)) (storageKey ''general'') = None
   \<and> messages (loadRoomMessages uuids noon bob) = []
   \<and> localStorage (loadRoomMessages uuids noon bob) (storageKey ''general'') = None"
  using loadRoomMessages_corrupt [of "bob\<lparr>localStorage := [storageKey ''general'' \<mapsto> Garbage ''[{'']\<rparr>" uuids noon]
    loadRoomMessages_corrupt [of bob uuids noon]
  by (simp add: bob_def)

text \<open>
  C8 as stated fails on the empty text: it does not parse, and it stays in the storage.
\<close>

theorem loadRoomMessages_empty_text_counterexample:
  "localStorage (loadRoomMessages uuids noon
      (bob\<lparr>localStorage := [storageKey ''general'' \<mapsto> Garbage []]\<rparr>)) (storageKey ''general'')
     = Some (Garbage [])"
  by (simp add: loadRoomMessages_def bob_def Let_def)

subsection \<open>Storing a list and loading it again\<close>

lemma normalize_obj:
  "normalize r u now (JObj m) =
     Inr [(''id'', nullish (get m ''id'') (JStr u)),
          (''username'', nullish (get m ''username'') (JStr ''Unknown'')),
          (''message'', nullish (get m ''message'') (JStr [])),
          (''timestamp'', nullish (get m ''timestamp'') (JStr now)),
          (''likes'', numberOr0 (get m ''likes'')),
          (''room'', nullish (get m ''room'') (JStr r))]"
  by (simp add: normalize_def)

lemma normalize_all_objs:
  "\<exists>xs. normalize_all r uuid now i (map JObj ms) = Inr xs \<and> length xs = length ms \<and>
        (\<forall>j < length ms. normalize r (uuid (i + j)) now (JObj (ms ! j)) = Inr (xs ! j))"
proof (induction ms arbitrary: i)
  case Nil
  show ?case by simp
next
  case (Cons m ms)
  obtain x where x: "normalize r (uuid i) now (JObj m) = Inr x"
    by (simp add: normalize_obj)
  from Cons [of "Suc i"] obtain xs where xs:
    "normalize_all r uuid now (Suc i) (map JObj ms) = Inr xs" "length xs = length ms"
    "\<forall>j < length ms. normalize r (uuid (Suc i + j)) now (JObj (ms ! j)) = Inr (xs ! j)"
    by blast
  have "normalize_all r uuid now i (map JObj (m # ms)) = Inr (x # xs)"
    by (simp add: x xs(1))
  moreover have "\<forall>j < length (m # ms).
     normalize r (uuid (i + j)) now (JObj ((m # ms) ! j)) = Inr ((x # xs) ! j)"
  proof (intro allI impI)
    fix j assume "j < length (m # ms)"
    then show "normalize r (uuid (i + j)) now (JObj ((m # ms) ! j)) = Inr ((x # xs) ! j)"
      using x xs(3) by (cases j) simp_all
  qed
  ultimately show ?case using xs(2) by simp
qed

lemma nullish_has: "has m k \<Longrightarrow> Some (nullish (get m k) d) = get m k"
  by (cases "(get m k, d)" rule: nullish.cases) (simp_all add: has_def)

lemma normalized_fields:
  assumes "has m ''id''" "has m ''username''" "has m ''message''" "has m ''timestamp''"
    "get m ''likes'' = Some (JNum n)" "has m ''room''"
    and x: "normalize r u now (JObj m) = Inr x"
  shows "\<forall>k \<in> set fieldNames. get x k = get m k"
proof -
  have "x = [(''id'', nullish (get m ''id'') (JStr u)),
          (''username'', nullish (get m ''username'') (JStr ''Unknown'')),
          (''message'', nullish (get m ''message'') (JStr [])),
          (''timestamp'', nullish (get m ''timestamp'') (JStr now)),
          (''likes'', numberOr0 (get m ''likes'')),
          (''room'', nullish (get m ''room'') (JStr r))]"
    using x by (simp add: normalize_obj)
  then show ?thesis
    using assms(1-6) by (simp add: fieldNames_def get_def nullish_has [unfolded get_def])
qed

lemma obj_of_fields:
  assumes "map fst m = fieldNames"
  shows "m = [(''id'', the (get m ''id'')), (''username'', the (get m ''username'')),
              (''message'', the (get m ''message'')), (''timestamp'', the (get m ''timestamp'')),
              (''likes'', the (get m ''likes'')), (''room'', the (get m ''room''))]"
proof -
  from assms obtain a b c d e f where m: "m = [a, b, c, d, e, f]"
    by (auto simp: fieldNames_def map_eq_Cons_conv)
  with assms have "fst a = ''id''" "fst b = ''username''" "fst c = ''message''"
    "fst d = ''timestamp''" "fst e = ''likes''" "fst f = ''room''"
    by (simp_all add: fieldNames_def)
  then show ?thesis
    unfolding m get_def by (cases a; cases b; cases c; cases d; cases e; cases f) simp
qed

lemma normalized_same:
  assumes "has m ''id''" "has m ''username''" "has m ''message''" "has m ''timestamp''"
    "get m ''likes'' = Some (JNum n)" "has m ''room''" "map fst m = fieldNames"
    and x: "normalize r u now (JObj m) = Inr x"
  shows "x = m"
proof -
  have v: "nullish (get m k) d = the (get m k)" if "has m k" for k d
    using nullish_has [OF that, of d] by (metis option.sel)
  have "x = [(''id'', nullish (get m ''id'') (JStr u)),
          (''username'', nullish (get m ''username'') (JStr ''Unknown'')),
          (''message'', nullish (get m ''message'') (JStr [])),
          (''timestamp'', nullish (get m ''timestamp'') (JStr now)),
          (''likes'', numberOr0 (get m ''likes'')),
          (''room'', nullish (get m ''room'') (JStr r))]"
    using x by (simp add: normalize_obj)
  also have "\<dots> = [(''id'', the (get m ''id'')), (''username'', the (get m ''username'')),
              (''message'', the (get m ''message'')), (''timestamp'', the (get m ''timestamp'')),
              (''likes'', the (get m ''likes'')), (''room'', the (get m ''room''))]"
    using assms(1-6) by (simp add: v)
  also have "\<dots> = m"
    using obj_of_fields [OF assms(7)] by simp
  finally show ?thesis .
qed

lemma setItem_fields:
  "room (setItem k v s) = room s" "messages (setItem k v s) = messages s"
  "localStorage (setItem k v s) = (localStorage s)(k \<mapsto> v)"
  by (simp_all add: setItem_def)

lemma nullish_default: "\<not> has m k \<Longrightarrow> nullish (get m k) d = d"
  by (cases "(get m k, d)" rule: nullish.cases) (simp_all add: has_def)

lemma numberOr0_other: "(\<nexists>n. x = Some (JNum n)) \<Longrightarrow> numberOr0 x = JNum 0"
  by (cases x rule: numberOr0.cases) simp_all

lemma normalized_view:
  assumes "normalize r u now (JObj m) = Inr x"
  shows "map fst x = fieldNames"
    and "\<forall>k \<in> {''id'', ''username'', ''message'', ''timestamp'', ''room''}.
           has m k \<longrightarrow> get x k = get m k"
    and "\<not> has m ''id'' \<longrightarrow> get x ''id'' = Some (JStr u)"
    and "\<not> has m ''username'' \<longrightarrow> get x ''username'' = Some (JStr ''Unknown'')"
    and "\<not> has m ''message'' \<longrightarrow> get x ''message'' = Some (JStr [])"
    and "\<not> has m ''timestamp'' \<longrightarrow> get x ''timestamp'' = Some (JStr now)"
    and "\<not> has m ''room'' \<longrightarrow> get x ''room'' = Some (JStr r)"
    and "\<forall>n. get m ''likes'' = Some (JNum n) \<longrightarrow> get x ''likes'' = Some (JNum n)"
    and "(\<nexists>n. get m ''likes'' = Some (JNum n)) \<longrightarrow> get x ''likes'' = Some (JNum 0)"
    and "\<forall>k. k \<notin> set fieldNames \<longrightarrow> get x k = None"
proof -
  have x: "x = [(''id'', nullish (get m ''id'') (JStr u)),
          (''username'', nullish (get m ''username'') (JStr ''Unknown'')),
          (''message'', nullish (get m ''message'') (JStr [])),
          (''timestamp'', nullish (get m ''timestamp'') (JStr now)),
          (''likes'', numberOr0 (get m ''likes'')),
          (''room'', nullish (get m ''room'') (JStr r))]"
    using assms by (simp add: normalize_obj)
  show "map fst x = fieldNames"
    by (simp add: x fieldNames_def)
  show "\<forall>k \<in> {''id'', ''username'', ''message'', ''timestamp'', ''room''}.
           has m k \<longrightarrow> get x k = get m k"
    by (simp add: x get_def nullish_has [unfolded get_def])
  show "\<not> has m ''id'' \<longrightarrow> get x ''id'' = Some (JStr u)"
    and "\<not> has m ''username'' \<longrightarrow> get x ''username'' = Some (JStr ''Unknown'')"
    and "\<not> has m ''message'' \<longrightarrow> get x ''message'' = Some (JStr [])"
    and "\<not> has m ''timestamp'' \<longrightarrow> get x ''timestamp'' = Some (JStr now)"
    and "\<not> has m ''room'' \<longrightarrow> get x ''room'' = Some (JStr r)"
    by (simp_all add: x get_def nullish_default [unfolded get_def])
  show "\<forall>n. get m ''likes'' = Some (JNum n) \<longrightarrow> get x ''likes'' = Some (JNum n)"
    by (simp add: x get_def)
  show "(\<nexists>n. get m ''likes'' = Some (JNum n)) \<longrightarrow> get x ''likes'' = Some (JNum 0)"
    by (simp add: x get_def numberOr0_other [unfolded get_def])
  show "\<forall>k. k \<notin> set fieldNames \<longrightarrow> get x k = None"
    by (simp add: x get_def fieldNames_def)
qed

text \<open>
  C5 (as amended). Storing a message list for a room and loading the room gives a list
  of the same length, and the list is stored again as loaded. Every loaded message has
  exactly the six fields: \<^verbatim>\<open>id\<close>, \<^verbatim>\<open>username\<close>, \<^verbatim>\<open>message\<close>, \<^verbatim>\<open>timestamp\<close> and \<^verbatim>\<open>room\<close> keep
  the value they had, or take their default (a new identifier, \<^verbatim>\<open>Unknown\<close>, the empty
  text, the time of the load, the open room) when they were missing or \<^verbatim>\<open>null\<close>; \<^verbatim>\<open>likes\<close>
  keeps a number and is \<open>0\<close> otherwise; every other property of the stored message is
  dropped. So when every message has all six fields, with \<^verbatim>\<open>likes\<close> a number, and no other
  property, the loaded messages have the properties and values of the stored ones, and
  the loaded list is the stored list when the six fields are in the order in which the
  client writes them. (What \<^verbatim>\<open>JSON.parse\<close> reads from the text \<^verbatim>\<open>JSON.stringify\<close> wrote is the
  value written: that is the platform's part, built into the representation of stored
  texts.)
\<close>

theorem store_load_roundtrip:
  "let s' = loadRoomMessages uuid now (setItem (storageKey (room s)) (stringify_messages ms) s) in
     length (messages s') = length ms
   \<and> localStorage s' (storageKey (room s)) = Some (stringify_messages (messages s'))
   \<and> (\<forall>j < length ms.
        map fst (messages s' ! j) = fieldNames
      \<and> (\<forall>k \<in> {''id'', ''username'', ''message'', ''timestamp'', ''room''}.
           has (ms ! j) k \<longrightarrow> get (messages s' ! j) k = get (ms ! j) k)
      \<and> (\<not> has (ms ! j) ''id'' \<longrightarrow> get (messages s' ! j) ''id'' = Some (JStr (uuid j)))
      \<and> (\<not> has (ms ! j) ''username'' \<longrightarrow> get (messages s' ! j) ''username'' = Some (JStr ''Unknown''))
      \<and> (\<not> has (ms ! j) ''message'' \<longrightarrow> get (messages s' ! j) ''message'' = Some (JStr []))
      \<and> (\<not> has (ms ! j) ''timestamp'' \<longrightarrow> get (messages s' ! j) ''timestamp'' = Some (JStr now))
      \<and> (\<not> has (ms ! j) ''room'' \<longrightarrow> get (messages s' ! j) ''room'' = Some (JStr (room s)))
      \<and> (\<forall>n. get (ms ! j) ''likes'' = Some (JNum n) \<longrightarrow> get (messages s' ! j) ''likes'' = Some (JNum n))
      \<and> ((\<nexists>n. get (ms ! j) ''likes'' = Some (JNum n)) \<longrightarrow> get (messages s' ! j) ''likes'' = Some (JNum 0))
      \<and> (\<forall>k. k \<notin> set fieldNames \<longrightarrow> get (messages s' ! j) k = None))
   \<and> ((\<forall>m \<in> set ms. has m ''id'' \<and> has m ''username'' \<and> has m ''message'' \<and>
          has m ''timestamp'' \<and> (\<exists>n. get m ''likes'' = Some (JNum n)) \<and> has m ''room'' \<and>
          fst ` set m \<subseteq> set fieldNames) \<longrightarrow>
        (\<forall>j < length ms. \<forall>k. get (messages s' ! j) k = get (ms ! j) k)
        \<and> ((\<forall>m \<in> set ms. map fst m = fieldNames) \<longrightarrow> messages s' = ms))"
proof -
  define s0 where "s0 = setItem (storageKey (room s)) (stringify_messages ms) s"
  define s' where "s' = loadRoomMessages uuid now s0"
  obtain xs where xs: "normalize_all (room s) uuid now 0 (map JObj ms) = Inr xs"
    "length xs = length ms"
    "\<forall>j < length ms. normalize (room s) (uuid j) now (JObj (ms ! j)) = Inr (xs ! j)"
    using normalize_all_objs [of "room s" uuid now 0 ms] by auto
  have s0: "room s0 = room s"
    "localStorage s0 (storageKey (room s0)) = Some (Json (JArr (map JObj ms)))"
    by (simp_all add: s0_def setItem_fields stringify_messages_def)
  have "s' = setItem (storageKey (room s)) (stringify_messages xs) (s0\<lparr>messages := xs\<rparr>)"
    unfolding s'_def using loadRoomMessages_array [OF s0(2), of uuid now xs] xs(1)
    by (simp add: s0(1))
  then have ms': "messages s' = xs"
    and st': "localStorage s' (storageKey (room s)) = Some (stringify_messages xs)"
    by (simp_all add: setItem_def)
  have 1: "length (messages s') = length ms"
    by (simp add: ms' xs(2))
  have 2: "localStorage s' (storageKey (room s)) = Some (stringify_messages (messages s'))"
    by (simp add: ms' st')
  have 3: "\<forall>j < length ms.
        map fst (messages s' ! j) = fieldNames
      \<and> (\<forall>k \<in> {''id'', ''username'', ''message'', ''timestamp'', ''room''}.
           has (ms ! j) k \<longrightarrow> get (messages s' ! j) k = get (ms ! j) k)
      \<and> (\<not> has (ms ! j) ''id'' \<longrightarrow> get (messages s' ! j) ''id'' = Some (JStr (uuid j)))
      \<and> (\<not> has (ms ! j) ''username'' \<longrightarrow> get (messages s' ! j) ''username'' = Some (JStr ''Unknown''))
      \<and> (\<not> has (ms ! j) ''message'' \<longrightarrow> get (messages s' ! j) ''message'' = Some (JStr []))
      \<and> (\<not> has (ms ! j) ''timestamp'' \<longrightarrow> get (messages s' ! j) ''timestamp'' = Some (JStr now))
      \<and> (\<not> has (ms ! j) ''room'' \<longrightarrow> get (messages s' ! j) ''room'' = Some (JStr (room s)))
      \<and> (\<forall>n. get (ms ! j) ''likes'' = Some (JNum n) \<longrightarrow> get (messages s' ! j) ''likes'' = Some (JNum n))
      \<and> ((\<nexists>n. get (ms ! j) ''likes'' = Some (JNum n)) \<longrightarrow> get (messages s' ! j) ''likes'' = Some (JNum 0))
      \<and> (\<forall>k. k \<notin> set fieldNames \<longrightarrow> get (messages s' ! j) k = None)"
  proof (intro allI impI)
    fix j assume "j < length ms"
    with xs(3) have n: "normalize (room s) (uuid j) now (JObj (ms ! j)) = Inr (messages s' ! j)"
      by (simp add: ms')
    from normalized_view [OF n]
    show "map fst (messages s' ! j) = fieldNames
      \<and> (\<forall>k \<in> {''id'', ''username'', ''message'', ''timestamp'', ''room''}.
           has (ms ! j) k \<longrightarrow> get (messages s' ! j) k = get (ms ! j) k)
      \<and> (\<not> has (ms ! j) ''id'' \<longrightarrow> get (messages s' ! j) ''id'' = Some (JStr (uuid j)))
      \<and> (\<not> has (ms ! j) ''username'' \<longrightarrow> get (messages s' ! j) ''username'' = Some (JStr ''Unknown''))
      \<and> (\<not> has (ms ! j) ''message'' \<longrightarrow> get (messages s' ! j) ''message'' = Some (JStr []))
      \<and> (\<not> has (ms ! j) ''timestamp'' \<longrightarrow> get (messages s' ! j) ''timestamp'' = Some (JStr now))
      \<and> (\<not> has (ms ! j) ''room'' \<longrightarrow> get (messages s' ! j) ''room'' = Some (JStr (room s)))
      \<and> (\<forall>n. get (ms ! j) ''likes'' = Some (JNum n) \<longrightarrow> get (messages s' ! j) ''likes'' = Some (JNum n))
      \<and> ((\<nexists>n. get (ms ! j) ''likes'' = Some (JNum n)) \<longrightarrow> get (messages s' ! j) ''likes'' = Some (JNum 0))
      \<and> (\<forall>k. k \<notin> set fieldNames \<longrightarrow> get (messages s' ! j) k = None)"
      by (intro conjI)
  qed
  have 4: "(\<forall>j < length ms. \<forall>k. get (messages s' ! j) k = get (ms ! j) k)
        \<and> ((\<forall>m \<in> set ms. map fst m = fieldNames) \<longrightarrow> messages s' = ms)"
    if full: "\<forall>m \<in> set ms. has m ''id'' \<and> has m ''username'' \<and> has m ''message'' \<and>
          has m ''timestamp'' \<and> (\<exists>n. get m ''likes'' = Some (JNum n)) \<and> has m ''room'' \<and>
          fst ` set m \<subseteq> set fieldNames"
  proof (intro conjI allI impI)
    fix j k assume j: "j < length ms"
    then have in_ms: "ms ! j \<in> set ms" by simp
    with full obtain n where f: "has (ms ! j) ''id''" "has (ms ! j) ''username''"
      "has (ms ! j) ''message''" "has (ms ! j) ''timestamp''"
      "get (ms ! j) ''likes'' = Some (JNum n)" "has (ms ! j) ''room''"
      by blast
    from full in_ms have keys: "fst ` set (ms ! j) \<subseteq> set fieldNames" by blast
    show "get (messages s' ! j) k = get (ms ! j) k"
    proof (cases "k \<in> set fieldNames")
      case True
      with normalized_fields [OF f, of "room s" "uuid j" now "xs ! j"] xs(3) j
      show ?thesis by (simp add: ms')
    next
      case False
      with keys have "k \<notin> fst ` set (ms ! j)" by blast
      then have "get (ms ! j) k = None"
        by (simp add: get_def map_of_eq_None_iff)
      moreover from 3 j False have "get (messages s' ! j) k = None" by blast
      ultimately show ?thesis by simp
    qed
  next
    assume shape: "\<forall>m \<in> set ms. map fst m = fieldNames"
    have "xs ! j = ms ! j" if j: "j < length ms" for j
    proof -
      from j have in_ms: "ms ! j \<in> set ms" by simp
      with full obtain n where "has (ms ! j) ''id''" "has (ms ! j) ''username''"
        "has (ms ! j) ''message''" "has (ms ! j) ''timestamp''"
        "get (ms ! j) ''likes'' = Some (JNum n)" "has (ms ! j) ''room''"
        by blast
      moreover from shape in_ms have "map fst (ms ! j) = fieldNames" by blast
      moreover from xs(3) j have "normalize (room s) (uuid j) now (JObj (ms ! j)) = Inr (xs ! j)"
        by simp
      ultimately show ?thesis by (rule normalized_same)
    qed
    then show "messages s' = ms"
      by (simp add: ms' list_eq_iff_nth_eq xs(2))
  qed
  show ?thesis
    unfolding Let_def s0_def [symmetric] s'_def [symmetric]
    using 1 2 3 4 by blast
qed

lemma hello_full:
  "\<forall>m \<in> set [hello]. has m ''id'' \<and> has m ''username'' \<and> has m ''message'' \<and>
          has m ''timestamp'' \<and> (\<exists>n. get m ''likes'' = Some (JNum n)) \<and> has m ''room'' \<and>
          fst ` set m \<subseteq> set fieldNames"
  "\<forall>m \<in> set [hello]. map fst m = fieldNames"
  by (simp_all add: hello_def has_def get_def fieldNames_def)

theorem store_load_roundtrip_witness:
  "messages (loadRoomMessages uuids noon
       (setItem (storageKey ''general'') (stringify_messages [hello]) bob)) = [hello]
   \<and> get (messages (loadRoomMessages uuids noon
       (setItem (storageKey ''general'') (stringify_messages [hello, [(''message'', JStr ''hi'')]]) bob)) ! 1)
       ''message'' = Some (JStr ''hi'')
   \<and> get (messages (loadRoomMessages uuids noon
       (setItem (storageKey ''general'') (stringify_messages [hello, [(''message'', JStr ''hi'')]]) bob)) ! 1)
       ''id'' = Some (JStr ''uuid-1'')
   \<and> get (messages (loadRoomMessages uuids noon
       (setItem (storageKey ''general'') (stringify_messages [hello, [(''message'', JStr ''hi'')]]) bob)) ! 1)
       ''likes'' = Some (JNum 0)"
proof -
  have r: "room bob = ''general''" by (simp add: bob_def)
  have 1: "messages (loadRoomMessages uuids noon
       (setItem (storageKey ''general'') (stringify_messages [hello]) bob)) = [hello]"
    using store_load_roundtrip [of uuids noon bob "[hello]"] hello_full
    unfolding Let_def r by blast
  define hi :: obj where "hi = [(''message'', JStr ''hi'')]"
  have hi: "has hi ''message''" "\<not> has hi ''id''" "\<nexists>n. get hi ''likes'' = Some (JNum n)"
    by (simp_all add: hi_def has_def get_def)
  have u: "uuids 1 = ''uuid-1''" by (simp add: uuids_def digit_def)
  have "get (messages (loadRoomMessages uuids noon
       (setItem (storageKey ''general'') (stringify_messages [hello, hi]) bob)) ! 1) ''message''
       = get hi ''message''
     \<and> get (messages (loadRoomMessages uuids noon
       (setItem (storageKey ''general'') (stringify_messages [hello, hi]) bob)) ! 1) ''id''
       = Some (JStr (uuids 1))
     \<and> get (messages (loadRoomMessages uuids noon
       (setItem (storageKey ''general'') (stringify_messages [hello, hi]) bob)) ! 1) ''likes''
       = Some (JNum 0)"
    using store_load_roundtrip [of uuids noon bob "[hello, hi]"] hi
    unfolding Let_def r by (simp add: less_Suc_eq_0_disj)
  then show ?thesis
    using 1 unfolding u by (simp add: hi_def get_def)
qed

text \<open>
  C5 as stated fails for a message with a property besides the six: the relayed message
  is kept and stored with it, it has all six fields with \<^verbatim>\<open>likes\<close> a number, and the load
  gives the message without it.
\<close>

theorem store_load_extra_counterexample:
  "get hello_color ''color'' = Some (JStr ''red'')
   \<and> messages (handleChatMessage hello_color bob) = [hello_color]
   \<and> localStorage (handleChatMessage hello_color bob) (storageKey ''general'')
       = Some (stringify_messages [hello_color])
   \<and> messages (loadRoomMessages uuids noon (handleChatMessage hello_color bob)) = [hello]
   \<and> get (messages (loadRoomMessages uuids noon (handleChatMessage hello_color bob)) ! 0) ''color'' = None"
proof -
  have c: "messages (handleChatMessage hello_color bob) = [hello_color]"
    "room (handleChatMessage hello_color bob) = ''general''"
    "localStorage (handleChatMessage hello_color bob) (storageKey ''general'')
       = Some (stringify_messages [hello_color])"
    by (simp_all add: handleChatMessage_def hello_color_def hello_def bob_def get_def setItem_def Let_def)
  have n: "normalize_all ''general'' uuids noon 0 [JObj hello_color] = Inr [hello]"
    by (simp add: normalize_def hello_color_def hello_def get_def)
  have l: "messages (loadRoomMessages uuids noon (handleChatMessage hello_color bob)) = [hello]"
    using c(3) n
    by (simp add: loadRoomMessages_def Let_def c(2) stringify_messages_def setItem_def)
  show ?thesis
    by (simp add: c l) (simp add: hello_color_def hello_def get_def)
qed

subsection \<open>The joined-room list\<close>

lemma strings_map_JStr: "strings (map JStr rs) = Some rs"
  by (induction rs) simp_all

lemma readRooms_stringify: "readRooms (Some (stringify_rooms rs)) = Inr rs"
  by (simp add: stringify_rooms_def strings_map_JStr)

lemma addRoomForUser_old:
  "readRooms (localStorage s (roomsKey u)) = Inr rs \<Longrightarrow> r \<in> set rs \<Longrightarrow>
   addRoomForUser u r s = Inr (s\<lparr>joinedRooms := rs\<rparr>)"
  by (simp add: addRoomForUser_def Let_def)

lemma addRoomForUser_new:
  "readRooms (localStorage s (roomsKey u)) = Inr rs \<Longrightarrow> r \<notin> set rs \<Longrightarrow>
   addRoomForUser u r s =
     Inr ((setItem (roomsKey u) (stringify_rooms (rs @ [r])) s)\<lparr>joinedRooms := rs @ [r]\<rparr>)"
  by (simp add: addRoomForUser_def Let_def)

lemma addRoomForUser_step:
  assumes "readRooms (localStorage s (roomsKey u)) = Inr rs"
  shows "\<exists>s'. addRoomForUser u r s = Inr s' \<and>
           joinedRooms s' = (if r \<in> set rs then rs else rs @ [r]) \<and>
           readRooms (localStorage s' (roomsKey u)) = Inr (joinedRooms s')"
proof (cases "r \<in> set rs")
  case True
  with assms show ?thesis by (simp add: addRoomForUser_old)
next
  case False
  with assms show ?thesis
    by (simp add: addRoomForUser_new setItem_def readRooms_stringify)
qed

lemma addRooms_distinct:
  assumes "readRooms (localStorage s (roomsKey u)) = Inr rs" "distinct rs"
  shows "\<exists>s' rs'. addRooms u names s = Inr s' \<and>
           readRooms (localStorage s' (roomsKey u)) = Inr rs' \<and>
           distinct rs' \<and> set rs' = set rs \<union> set names"
  using assms
proof (induction names arbitrary: s rs)
  case Nil
  then show ?case by simp
next
  case (Cons r names)
  from addRoomForUser_step [OF Cons.prems(1), of r] obtain s1 where s1:
    "addRoomForUser u r s = Inr s1"
    "joinedRooms s1 = (if r \<in> set rs then rs else rs @ [r])"
    "readRooms (localStorage s1 (roomsKey u)) = Inr (joinedRooms s1)"
    by blast
  have d: "distinct (joinedRooms s1)" and e: "set (joinedRooms s1) = set rs \<union> {r}"
    using Cons.prems(2) by (auto simp: s1(2))
  from Cons.IH [OF s1(3) d] obtain s' rs' where
    "addRooms u names s1 = Inr s'" "readRooms (localStorage s' (roomsKey u)) = Inr rs'"
    "distinct rs'" "set rs' = set (joinedRooms s1) \<union> set names"
    by blast
  then show ?case
    by (auto simp: s1(1) e)
qed

text \<open>
  C10. With a stored room list \<open>rs\<close> (nothing stored and an unreadable text count as the
  empty list), adding a room that is in \<open>rs\<close> leaves the storage as it is, adding one that
  is not stores \<open>rs\<close> with the room at the end, and adding the same room again changes
  nothing. So a list without duplicates stays without duplicates under any sequence of
  additions.
\<close>

theorem addRoomForUser_idempotent:
  assumes "readRooms (localStorage s (roomsKey u)) = Inr rs"
  shows "(r \<in> set rs \<longrightarrow> addRoomForUser u r s = Inr (s\<lparr>joinedRooms := rs\<rparr>))
       \<and> (r \<notin> set rs \<longrightarrow>
            addRoomForUser u r s =
              Inr ((setItem (roomsKey u) (stringify_rooms (rs @ [r])) s)\<lparr>joinedRooms := rs @ [r]\<rparr>))
       \<and> (\<exists>s'. addRoomForUser u r s = Inr s' \<and> addRoomForUser u r s' = Inr s')
       \<and> (distinct rs \<longrightarrow>
            (\<exists>s' rs'. addRooms u names s = Inr s' \<and>
               readRooms (localStorage s' (roomsKey u)) = Inr rs' \<and>
               distinct rs' \<and> set rs' = set rs \<union> set names))"
proof (intro conjI impI)
  show "addRoomForUser u r s = Inr (s\<lparr>joinedRooms := rs\<rparr>)" if "r \<in> set rs"
    using assms that by (rule addRoomForUser_old)
  show "addRoomForUser u r s =
      Inr ((setItem (roomsKey u) (stringify_rooms (rs @ [r])) s)\<lparr>joinedRooms := rs @ [r]\<rparr>)"
    if "r \<notin> set rs"
    using assms that by (rule addRoomForUser_new)
  show "\<exists>s'. addRoomForUser u r s = Inr s' \<and> addRoomForUser u r s' = Inr s'"
  proof -
    from addRoomForUser_step [OF assms, of r] obtain s' where s':
      "addRoomForUser u r s = Inr s'"
      "joinedRooms s' = (if r \<in> set rs then rs else rs @ [r])"
      "readRooms (localStorage s' (roomsKey u)) = Inr (joinedRooms s')"
      by blast
    then have "r \<in> set (joinedRooms s')" by simp
    with s'(3) have "addRoomForUser u r s' = Inr (s'\<lparr>joinedRooms := joinedRooms s'\<rparr>)"
      by (rule addRoomForUser_old)
    with s'(1) show ?thesis by simp
  qed
  show "\<exists>s' rs'. addRooms u names s = Inr s' \<and>
               readRooms (localStorage s' (roomsKey u)) = Inr rs' \<and>
               distinct rs' \<and> set rs' = set rs \<union> set names" if "distinct rs"
    using assms that by (rule addRooms_distinct)
qed

theorem addRoomForUser_idempotent_witness:
  "map_sum id joinedRooms (addRoomForUser ''bob'' ''work'' bob) = Inr [''work'']
   \<and> addRoomForUser ''bob'' ''work'' (bob\<lparr>localStorage := [roomsKey ''bob'' \<mapsto> stringify_rooms [''work'']]\<rparr>)
       = Inr (bob\<lparr>localStorage := [roomsKey ''bob'' \<mapsto> stringify_rooms [''work'']],
                  joinedRooms := [''work'']\<rparr>)
   \<and> (\<exists>s' rs'. addRooms ''bob'' [''work'', ''general'', ''work''] bob = Inr s' \<and>
         readRooms (localStorage s' (roomsKey ''bob'')) = Inr rs' \<and> distinct rs' \<and>
         set rs' = {''work'', ''general''})
   \<and> map_sum id joinedRooms (addRooms ''bob'' [''work'', ''general'', ''work''] bob)
       = Inr [''work'', ''general'']"
proof -
  have h: "readRooms (localStorage bob (roomsKey ''bob'')) = Inr []"
    by (simp add: bob_def)
  have h': "readRooms (localStorage (bob\<lparr>localStorage := [roomsKey ''bob'' \<mapsto> stringify_rooms [''work'']]\<rparr>)
      (roomsKey ''bob'')) = Inr [''work'']"
    by (simp add: readRooms_stringify)
  have "addRoomForUser ''bob'' ''work'' bob =
      Inr ((setItem (roomsKey ''bob'') (stringify_rooms [''work'']) bob)\<lparr>joinedRooms := [''work'']\<rparr>)"
    using addRoomForUser_idempotent [OF h, of "''work''" "[]"] by simp
  then have 1: "map_sum id joinedRooms (addRoomForUser ''bob'' ''work'' bob) = Inr [''work'']"
    by simp
  have 2: "addRoomForUser ''bob'' ''work'' (bob\<lparr>localStorage := [roomsKey ''bob'' \<mapsto> stringify_rooms [''work'']]\<rparr>)
       = Inr (bob\<lparr>localStorage := [roomsKey ''bob'' \<mapsto> stringify_rooms [''work'']],
                  joinedRooms := [''work'']\<rparr>)"
    using addRoomForUser_idempotent [OF h', of "''work''" "[]"] by simp
  have 3: "\<exists>s' rs'. addRooms ''bob'' [''work'', ''general'', ''work''] bob = Inr s' \<and>
         readRooms (localStorage s' (roomsKey ''bob'')) = Inr rs' \<and> distinct rs' \<and>
         set rs' = {''work'', ''general''}"
  proof -
    have "set [] \<union> set [''work'', ''general'', ''work''] = {''work'', ''general''}"
      by auto
    with addRoomForUser_idempotent [OF h, of "''work''" "[''work'', ''general'', ''work'']"]
    show ?thesis by (simp del: addRooms.simps set_simps)
  qed
  have 4: "map_sum id joinedRooms (addRooms ''bob'' [''work'', ''general'', ''work''] bob)
       = Inr [''work'', ''general'']"
    by (simp add: addRoomForUser_def bob_def Let_def setItem_def stringify_rooms_def roomsKey_def)
  from 1 2 3 4 show ?thesis by blast
qed

subsection \<open>Logging out\<close>

lemma resetLike_obj: "resetLike (JObj m) = JObj (put ''likes'' (JNum 0) m)"
  by (simp add: resetLike_def)

lemma resetLikes_messages:
  "localStorage s key = Some (stringify_messages ms) \<Longrightarrow>
   resetLikes key s = setItem key (stringify_messages (map (put ''likes'' (JNum 0)) ms)) s"
  by (simp add: stringify_messages_def resetLike_obj comp_def)

lemma handleLogout_storage:
  assumes "isReady s" "localStorage s (storageKey (room s)) = Some (stringify_messages ms)"
  shows "localStorage (handleLogout s) =
    (localStorage s)(storageKey (room s) \<mapsto> stringify_messages (map (put ''likes'' (JNum 0)) ms),
                     likedKey (room s) (username s) := None)"
proof -
  have "localStorage (s\<lparr>emitted := emitted s @ [LeaveRoom (username s) (room s)]\<rparr>) (storageKey (room s))
      = Some (stringify_messages ms)"
    using assms(2) by simp
  from resetLikes_messages [OF this] show ?thesis
    using assms(1) by (simp add: handleLogout_def Let_def setItem_def removeItem_def del: resetLikes.simps)
qed

text \<open>
  C9. A user who is in the chat logs out, and the room's stored text is a list of
  messages: afterwards the stored list is the same list with \<^verbatim>\<open>likes\<close> set to \<open>0\<close> in every
  message and every other field as it was, the user's liked map for the room is removed,
  and the relay has been told that the user left the room.
\<close>

theorem handleLogout_resets_likes:
  assumes "isReady s" "localStorage s (storageKey (room s)) = Some (stringify_messages ms)"
  shows "localStorage (handleLogout s) (storageKey (room s))
           = Some (stringify_messages (map (put ''likes'' (JNum 0)) ms))
       \<and> (\<forall>m \<in> set ms. get (put ''likes'' (JNum 0) m) ''likes'' = Some (JNum 0) \<and>
             (\<forall>k. k \<noteq> ''likes'' \<longrightarrow> get (put ''likes'' (JNum 0) m) k = get m k))
       \<and> localStorage (handleLogout s) (likedKey (room s) (username s)) = None
       \<and> emitted (handleLogout s) = emitted s @ [LeaveRoom (username s) (room s)]"
proof -
  have "localStorage (handleLogout s) (storageKey (room s))
          = Some (stringify_messages (map (put ''likes'' (JNum 0)) ms))"
    and "localStorage (handleLogout s) (likedKey (room s) (username s)) = None"
    by (simp_all add: handleLogout_storage [OF assms] storageKey_likedKey)
  moreover have "\<forall>m \<in> set ms. get (put ''likes'' (JNum 0) m) ''likes'' = Some (JNum 0) \<and>
             (\<forall>k. k \<noteq> ''likes'' \<longrightarrow> get (put ''likes'' (JNum 0) m) k = get m k)"
    by (simp add: get_put_same get_put_other)
  moreover have "emitted (handleLogout s) = emitted s @ [LeaveRoom (username s) (room s)]"
    using assms(1) resetLikes_messages [of "s\<lparr>emitted := emitted s @ [LeaveRoom (username s) (room s)]\<rparr>" "storageKey (room s)" ms] assms(2)
    by (simp add: handleLogout_def Let_def setItem_def removeItem_def del: resetLikes.simps)
  ultimately show ?thesis by blast
qed

lemma liked_hello_fields:
  "isReady liked_hello" "room liked_hello = ''general''" "username liked_hello = ''bob''"
  "emitted liked_hello = [ToggleLike ''m1'' 1 ''general'']"
  "localStorage liked_hello (storageKey ''general'') = Some (stringify_messages [put ''likes'' (JNum 1) hello])"
  "localStorage liked_hello (likedKey ''general'' ''bob'') = Some (Json (JObj [(''m1'', JBool True)]))"
  by (simp_all add: liked_hello_def handleLikeClick_def handleChatMessage_def Let_def setItem_def
      bob_def hello_def get_def bump_def storageKey_def likedKey_def isLiked_def inherited_def)

theorem handleLogout_resets_likes_witness:
  "localStorage liked_hello (storageKey ''general'') = Some (stringify_messages [put ''likes'' (JNum 1) hello])
   \<and> localStorage (handleLogout liked_hello) (storageKey ''general'') = Some (stringify_messages [hello])
   \<and> localStorage (handleLogout liked_hello) (likedKey ''general'' ''bob'') = None
   \<and> emitted (handleLogout liked_hello) = [ToggleLike ''m1'' 1 ''general'', LeaveRoom ''bob'' ''general'']"
proof -
  have h: "isReady liked_hello"
    "localStorage liked_hello (storageKey (room liked_hello)) = Some (stringify_messages [put ''likes'' (JNum 1) hello])"
    by (simp_all add: liked_hello_fields)
  have "put ''likes'' (JNum 0) (put ''likes'' (JNum 1) hello) = hello"
    by (simp add: hello_def)
  with handleLogout_resets_likes [OF h] liked_hello_fields(5) show ?thesis
    by (simp add: liked_hello_fields(2,3,4))
qed

subsection \<open>Renaming a room\<close>

lemma moveItem_fields:
  "username (moveItem a b s) = username s" "room (moveItem a b s) = room s"
  "joinedRooms (moveItem a b s) = joinedRooms s" "emitted (moveItem a b s) = emitted s"
  "localStorage (moveItem a b s) =
     (if present (localStorage s a) then (localStorage s)(b := localStorage s a, a := None)
      else localStorage s)"
  by (auto simp: moveItem_def setItem_def removeItem_def split: option.splits)

lemma saveUserRoomsList_fields:
  "username (saveUserRoomsList u rs s) = username s" "room (saveUserRoomsList u rs s) = room s"
  "joinedRooms (saveUserRoomsList u rs s) = joinedRooms s" "emitted (saveUserRoomsList u rs s) = emitted s"
  "localStorage (saveUserRoomsList u rs s) = (localStorage s)(roomsKey u \<mapsto> stringify_rooms rs)"
  by (simp_all add: saveUserRoomsList_def setItem_def)

lemma switchToRoom_fields:
  "username (switchToRoom n s) = username s" "room (switchToRoom n s) = n"
  "joinedRooms (switchToRoom n s) = joinedRooms s" "localStorage (switchToRoom n s) = localStorage s"
  "emitted (switchToRoom n s) =
     (if trim (username s) = [] then emitted s
      else emitted s @ [LeaveRoom (username s) (room s), JoinRoom (username s) n])"
  by (simp_all add: switchToRoom_def)

lemma closeManageModal_fields:
  "username (closeManageModal s) = username s" "room (closeManageModal s) = room s"
  "joinedRooms (closeManageModal s) = joinedRooms s" "localStorage (closeManageModal s) = localStorage s"
  "emitted (closeManageModal s) = emitted s"
  by (simp_all add: closeManageModal_def)

lemma handleRenameRoomConfirm_renames:
  assumes "roomToManage s = Some old" "old \<noteq> []" "trim (username s) \<noteq> []"
    "trim (renameValue s) = new" "new \<noteq> []" "new \<noteq> old"
  shows "handleRenameRoomConfirm s =
    closeManageModal
     ((if room s = old then switchToRoom new else (\<lambda>x. x))
       (moveItem (likedKey old (username s)) (likedKey new (username s))
         (moveItem (storageKey old) (storageKey new)
           (saveUserRoomsList (username s) (map (\<lambda>r. if r = old then new else r) (joinedRooms s))
             (s\<lparr>joinedRooms := map (\<lambda>r. if r = old then new else r) (joinedRooms s)\<rparr>)))))"
  using assms by (simp add: handleRenameRoomConfirm_def Let_def)

lemma handleRenameRoomConfirm_storage:
  assumes "roomToManage s = Some old" "old \<noteq> []" "trim (username s) \<noteq> []"
    "trim (renameValue s) = new" "new \<noteq> []" "new \<noteq> old"
  shows "localStorage (handleRenameRoomConfirm s) (storageKey new) =
           (if present (localStorage s (storageKey old)) then localStorage s (storageKey old)
            else localStorage s (storageKey new))"
    and "localStorage (handleRenameRoomConfirm s) (storageKey old) =
           (if present (localStorage s (storageKey old)) then None
            else localStorage s (storageKey old))"
    and "localStorage (handleRenameRoomConfirm s) (likedKey new (username s)) =
           (if present (localStorage s (likedKey old (username s)))
            then localStorage s (likedKey old (username s))
            else localStorage s (likedKey new (username s)))"
    and "localStorage (handleRenameRoomConfirm s) (likedKey old (username s)) =
           (if present (localStorage s (likedKey old (username s))) then None
            else localStorage s (likedKey old (username s)))"
    and "localStorage (handleRenameRoomConfirm s) (roomsKey (username s)) =
           Some (stringify_rooms (map (\<lambda>r. if r = old then new else r) (joinedRooms s)))"
  using assms(6)
  by (simp_all add: handleRenameRoomConfirm_renames [OF assms] closeManageModal_fields
      switchToRoom_fields moveItem_fields saveUserRoomsList_fields
      storageKey_inj likedKey_inj storageKey_likedKey roomsKey_other)


text \<open>
  C6. A rename that goes through (a room is chosen, the user has a name, and the new name,
  trimmed, is neither empty nor the old one) moves what is stored under the old message
  key to the new message key and removes the old key, and does the same with the user's
  liked map; so a message list stored before the rename is stored under the new key after
  it.
\<close>

theorem handleRenameRoomConfirm_moves:
  assumes "roomToManage s = Some old" "old \<noteq> []" "trim (username s) \<noteq> []"
    "trim (renameValue s) = new" "new \<noteq> []" "new \<noteq> old"
  shows "(present (localStorage s (storageKey old)) \<longrightarrow>
            localStorage (handleRenameRoomConfirm s) (storageKey new) = localStorage s (storageKey old) \<and>
            localStorage (handleRenameRoomConfirm s) (storageKey old) = None)
       \<and> (present (localStorage s (likedKey old (username s))) \<longrightarrow>
            localStorage (handleRenameRoomConfirm s) (likedKey new (username s))
              = localStorage s (likedKey old (username s)) \<and>
            localStorage (handleRenameRoomConfirm s) (likedKey old (username s)) = None)
       \<and> (\<forall>ms. localStorage s (storageKey old) = Some (stringify_messages ms) \<longrightarrow>
            localStorage (handleRenameRoomConfirm s) (storageKey new) = Some (stringify_messages ms) \<and>
            localStorage (handleRenameRoomConfirm s) (storageKey old) = None)"
  by (simp add: handleRenameRoomConfirm_storage [OF assms] stringify_messages_def)

lemma renaming_guards:
  "roomToManage renaming = Some ''general''" "''general'' \<noteq> []" "trim (username renaming) \<noteq> []"
  "trim (renameValue renaming) = ''team''" "''team'' \<noteq> []" "''team'' \<noteq> ''general''"
  by (simp_all add: renaming_def bob_def trim_def is_space_def)

theorem handleRenameRoomConfirm_moves_witness:
  "localStorage (handleRenameRoomConfirm (renaming\<lparr>localStorage :=
       [storageKey ''general'' \<mapsto> stringify_messages [hello],
        likedKey ''general'' ''bob'' \<mapsto> Json (JObj [(''m1'', JBool True)])]\<rparr>)) (storageKey ''team'')
     = Some (stringify_messages [hello])
   \<and> localStorage (handleRenameRoomConfirm (renaming\<lparr>localStorage :=
       [storageKey ''general'' \<mapsto> stringify_messages [hello],
        likedKey ''general'' ''bob'' \<mapsto> Json (JObj [(''m1'', JBool True)])]\<rparr>)) (storageKey ''general'')
     = None
   \<and> localStorage (handleRenameRoomConfirm (renaming\<lparr>localStorage :=
       [storageKey ''general'' \<mapsto> stringify_messages [hello],
        likedKey ''general'' ''bob'' \<mapsto> Json (JObj [(''m1'', JBool True)])]\<rparr>)) (likedKey ''team'' ''bob'')
     = Some (Json (JObj [(''m1'', JBool True)]))
   \<and> localStorage (handleRenameRoomConfirm (renaming\<lparr>localStorage :=
       [storageKey ''general'' \<mapsto> stringify_messages [hello],
        likedKey ''general'' ''bob'' \<mapsto> Json (JObj [(''m1'', JBool True)])]\<rparr>)) (likedKey ''general'' ''bob'')
     = None"
proof -
  define s where "s = renaming\<lparr>localStorage :=
       [storageKey ''general'' \<mapsto> stringify_messages [hello],
        likedKey ''general'' ''bob'' \<mapsto> Json (JObj [(''m1'', JBool True)])]\<rparr>"
  have g: "roomToManage s = Some ''general''" "''general'' \<noteq> []" "trim (username s) \<noteq> []"
    "trim (renameValue s) = ''team''" "''team'' \<noteq> []" "''team'' \<noteq> ''general''"
    using renaming_guards by (simp_all add: s_def)
  have u: "username s = ''bob''"
    by (simp add: s_def renaming_def bob_def)
  have st: "localStorage s (storageKey ''general'') = Some (stringify_messages [hello])"
    "localStorage s (likedKey ''general'' ''bob'') = Some (Json (JObj [(''m1'', JBool True)]))"
    by (simp_all add: s_def storageKey_likedKey)
  from handleRenameRoomConfirm_moves [OF g] show ?thesis
    unfolding s_def [symmetric] u by (simp add: st stringify_messages_def)
qed




subsection \<open>Deleting a room\<close>

lemma removeItem_fields:
  "username (removeItem k s) = username s" "room (removeItem k s) = room s"
  "joinedRooms (removeItem k s) = joinedRooms s" "emitted (removeItem k s) = emitted s"
  "localStorage (removeItem k s) = (localStorage s)(k := None)"
  by (simp_all add: removeItem_def)

lemma handleDeleteRoom_other:
  assumes "roomToManage s = Some target" "target \<noteq> []" "trim (username s) \<noteq> []"
    and "room s \<noteq> target"
  shows "handleDeleteRoom s =
    Inr (closeManageModal
          (removeItem (likedKey target (username s))
            (removeItem (storageKey target)
              (saveUserRoomsList (username s) (filter (\<lambda>r. r \<noteq> target) (joinedRooms s))
                (s\<lparr>joinedRooms := filter (\<lambda>r. r \<noteq> target) (joinedRooms s)\<rparr>)))))"
  using assms by (simp add: handleDeleteRoom_def Let_def)

lemma handleDeleteRoom_fallback:
  assumes "roomToManage s = Some target" "target \<noteq> []" "trim (username s) \<noteq> []"
    and "room s = target" "filter (\<lambda>r. r \<noteq> target) (joinedRooms s) = fallback # rest"
  shows "handleDeleteRoom s =
    Inr (closeManageModal
          (switchToRoom fallback
            (removeItem (likedKey target (username s))
              (removeItem (storageKey target)
                (saveUserRoomsList (username s) (fallback # rest)
                  (s\<lparr>joinedRooms := fallback # rest\<rparr>))))))"
  using assms by (simp add: handleDeleteRoom_def Let_def)

lemma handleDeleteRoom_last:
  assumes "roomToManage s = Some target" "target \<noteq> []" "trim (username s) \<noteq> []"
    and "room s = target" "filter (\<lambda>r. r \<noteq> target) (joinedRooms s) = []"
  shows "handleDeleteRoom s =
    Inr (closeManageModal
          (switchToRoom ''general''
            ((setItem (roomsKey (username s)) (stringify_rooms [''general''])
               (removeItem (likedKey target (username s))
                 (removeItem (storageKey target)
                   (saveUserRoomsList (username s) [] (s\<lparr>joinedRooms := []\<rparr>)))))
             \<lparr>joinedRooms := [''general'']\<rparr>)))"
proof -
  let ?s3 = "removeItem (likedKey target (username s))
                 (removeItem (storageKey target)
                   (saveUserRoomsList (username s) [] (s\<lparr>joinedRooms := []\<rparr>)))"
  have "readRooms (localStorage ?s3 (roomsKey (username s))) = Inr []"
    by (simp add: removeItem_fields saveUserRoomsList_fields roomsKey_other readRooms_stringify)
  then have "addRoomForUser (username s) ''general'' ?s3 =
      Inr ((setItem (roomsKey (username s)) (stringify_rooms ([] @ [''general''])) ?s3)
            \<lparr>joinedRooms := [] @ [''general'']\<rparr>)"
    by (rule addRoomForUser_new) simp
  then show ?thesis
    using assms by (simp add: handleDeleteRoom_def Let_def)
qed

lemma loadRoomMessages_nothing:
  "localStorage s (storageKey r) = None \<Longrightarrow> messages (loadRoomMessages uuid now (s\<lparr>room := r\<rparr>)) = []"
  by (simp add: loadRoomMessages_def Let_def)

text \<open>
  C7 (as amended). A delete that goes through (a room is chosen and the user has a name)
  removes the room's stored messages and the user's stored liked map for it, and takes the
  room out of the joined-room list, in the state and in the storage; loading the room
  afterwards gives the empty list. One case keeps the room in the list: when the open
  room is deleted and no other room is left, \<^verbatim>\<open>general\<close> is added to the emptied list, so
  deleting \<^verbatim>\<open>general\<close> itself as the last room leaves it listed.
\<close>

theorem handleDeleteRoom_removes:
  assumes "roomToManage s = Some target" "target \<noteq> []" "trim (username s) \<noteq> []"
  shows "\<exists>s'. handleDeleteRoom s = Inr s'
      \<and> localStorage s' (storageKey target) = None
      \<and> localStorage s' (likedKey target (username s)) = None
      \<and> joinedRooms s' =
          (if room s = target \<and> filter (\<lambda>r. r \<noteq> target) (joinedRooms s) = [] then [''general'']
           else filter (\<lambda>r. r \<noteq> target) (joinedRooms s))
      \<and> localStorage s' (roomsKey (username s)) = Some (stringify_rooms (joinedRooms s'))
      \<and> (target \<in> set (joinedRooms s') \<longleftrightarrow>
           target = ''general'' \<and> room s = ''general'' \<and> set (joinedRooms s) \<subseteq> {''general''})
      \<and> messages (loadRoomMessages uuid now (s'\<lparr>room := target\<rparr>)) = []"
proof -
  let ?rest = "filter (\<lambda>r. r \<noteq> target) (joinedRooms s)"
  have empty: "?rest = [] \<longleftrightarrow> set (joinedRooms s) \<subseteq> {target}"
    by (auto simp: filter_empty_conv)
  consider (other) "room s \<noteq> target"
    | (fallback) fallback rest where "room s = target" "?rest = fallback # rest"
    | (last) "room s = target" "?rest = []"
    by (cases ?rest) auto
  then show ?thesis
  proof cases
    case other
    let ?s' = "closeManageModal
          (removeItem (likedKey target (username s))
            (removeItem (storageKey target)
              (saveUserRoomsList (username s) ?rest (s\<lparr>joinedRooms := ?rest\<rparr>))))"
    have "handleDeleteRoom s = Inr ?s'"
      using assms other by (rule handleDeleteRoom_other)
    moreover have st: "localStorage ?s' (storageKey target) = None"
      "localStorage ?s' (likedKey target (username s)) = None"
      "localStorage ?s' (roomsKey (username s)) = Some (stringify_rooms ?rest)"
      and j: "joinedRooms ?s' = ?rest"
      by (simp_all add: closeManageModal_fields removeItem_fields saveUserRoomsList_fields
          roomsKey_other storageKey_likedKey)
    moreover have "target \<in> set (joinedRooms ?s') \<longleftrightarrow>
        target = ''general'' \<and> room s = ''general'' \<and> set (joinedRooms s) \<subseteq> {''general''}"
      using other by (auto simp: j)
    moreover have "messages (loadRoomMessages uuid now (?s'\<lparr>room := target\<rparr>)) = []"
      using st(1) by (rule loadRoomMessages_nothing)
    ultimately show ?thesis using other by (simp del: set_filter)
  next
    case fallback
    let ?s' = "closeManageModal
          (switchToRoom fallback
            (removeItem (likedKey target (username s))
              (removeItem (storageKey target)
                (saveUserRoomsList (username s) (fallback # rest)
                  (s\<lparr>joinedRooms := fallback # rest\<rparr>)))))"
    have "handleDeleteRoom s = Inr ?s'"
      using assms fallback by (rule handleDeleteRoom_fallback)
    moreover have st: "localStorage ?s' (storageKey target) = None"
      "localStorage ?s' (likedKey target (username s)) = None"
      "localStorage ?s' (roomsKey (username s)) = Some (stringify_rooms (fallback # rest))"
      and j: "joinedRooms ?s' = fallback # rest"
      by (simp_all add: closeManageModal_fields switchToRoom_fields removeItem_fields
          saveUserRoomsList_fields roomsKey_other storageKey_likedKey)
    moreover have "target \<notin> set (fallback # rest)"
    proof -
      have "target \<notin> set ?rest" by simp
      then show ?thesis unfolding fallback(2) .
    qed
    moreover have "\<not> set (joinedRooms s) \<subseteq> {target}"
      using empty fallback(2) by simp
    moreover have "messages (loadRoomMessages uuid now (?s'\<lparr>room := target\<rparr>)) = []"
      using st(1) by (rule loadRoomMessages_nothing)
    ultimately show ?thesis using fallback by (auto simp del: set_filter)
  next
    case last
    let ?s' = "closeManageModal
          (switchToRoom ''general''
            ((setItem (roomsKey (username s)) (stringify_rooms [''general''])
               (removeItem (likedKey target (username s))
                 (removeItem (storageKey target)
                   (saveUserRoomsList (username s) [] (s\<lparr>joinedRooms := []\<rparr>)))))
             \<lparr>joinedRooms := [''general'']\<rparr>))"
    have "handleDeleteRoom s = Inr ?s'"
      using assms last by (rule handleDeleteRoom_last)
    moreover have st: "localStorage ?s' (storageKey target) = None"
      "localStorage ?s' (likedKey target (username s)) = None"
      "localStorage ?s' (roomsKey (username s)) = Some (stringify_rooms [''general''])"
      and j: "joinedRooms ?s' = [''general'']"
      by (simp_all add: closeManageModal_fields switchToRoom_fields removeItem_fields
          saveUserRoomsList_fields setItem_def roomsKey_other storageKey_likedKey)
    moreover have "set (joinedRooms s) \<subseteq> {target}"
      using empty last(2) by simp
    moreover have "messages (loadRoomMessages uuid now (?s'\<lparr>room := target\<rparr>)) = []"
      using st(1) by (rule loadRoomMessages_nothing)
    ultimately show ?thesis using last by (auto simp del: set_filter)
  qed
qed

theorem handleDeleteRoom_removes_witness:
  "\<exists>s'. handleDeleteRoom deleting_work = Inr s'
      \<and> localStorage s' (storageKey ''work'') = None
      \<and> localStorage s' (likedKey ''work'' ''bob'') = None
      \<and> joinedRooms s' = [''general'']
      \<and> localStorage s' (roomsKey ''bob'') = Some (stringify_rooms [''general''])
      \<and> messages (loadRoomMessages uuids noon (s'\<lparr>room := ''work''\<rparr>)) = []"
proof -
  have g: "roomToManage deleting_work = Some ''work''" "''work'' \<noteq> []"
    "trim (username deleting_work) \<noteq> []"
    by (simp_all add: deleting_work_def bob_def trim_def is_space_def)
  have f: "username deleting_work = ''bob''" "room deleting_work = ''work''"
    "joinedRooms deleting_work = [''general'', ''work'']"
    by (simp_all add: deleting_work_def bob_def)
  from handleDeleteRoom_removes [OF g, of uuids noon] show ?thesis
    by (auto simp: f)
qed

text \<open>
  C7 as stated fails: \<^verbatim>\<open>general\<close> is the open room and the only room of the list, it is
  deleted, and it is in the list afterwards.
\<close>

theorem handleDeleteRoom_general_counterexample:
  "roomToManage deleting = Some ''general'' \<and> joinedRooms deleting = [''general'']
   \<and> map_sum id joinedRooms (handleDeleteRoom deleting) = Inr [''general'']"
proof -
  have g: "roomToManage deleting = Some ''general''" "''general'' \<noteq> []"
    "trim (username deleting) \<noteq> []" "room deleting = ''general''"
    "filter (\<lambda>r. r \<noteq> ''general'') (joinedRooms deleting) = []"
    by (simp_all add: deleting_def bob_def trim_def is_space_def)
  have "joinedRooms deleting = [''general'']"
    by (simp add: deleting_def bob_def)
  then show ?thesis
    by (simp add: handleDeleteRoom_last [OF g] g(1) closeManageModal_fields switchToRoom_fields)
qed

end
